theory Spec2Isabelle
  imports Main "HOL-Library.AList"
begin

section \<open>FakePrinter: the three drivers as state-passing functions\<close>

text \<open>
  The repository holds three variants of one command-line program: \<^verbatim>\<open>normal_driver.py\<close>
  (sequential), \<^verbatim>\<open>multi_driver.py\<close> (sequential supervised mode, concurrent automatic mode)
  and \<^verbatim>\<open>smart_driver.py\<close> (supervised mode with a bounded prefetch window, concurrent
  automatic mode). Each defines a class \<^verbatim>\<open>FakePrinter\<close>; the methods are embedded below
  under the name of their module.

  What is external to the program is an explicit parameter: the file system and the
  network answer through the oracles of an \<open>env\<close>, the user's typing is a list of lines,
  and the order in which concurrent tasks finish is a list of events. Everything the
  program does to the outside (folders, files, requests, tasks it spawns) is appended to
  a trace of effects carried with the object's fields. Text printed on the terminal and the
  half-second pause of the sequential automatic mode are left out.
\<close>

subsection \<open>Python strings\<close>

text \<open>
  A line the user types and the mode handed to the constructor are the two strings the
  program strips and lowercases. A Python \<^verbatim>\<open>str\<close> is a sequence of Unicode code points, so
  these two are lists of numbers; \<open>ustr\<close> reads a literal of the program as such a list.

  \<^verbatim>\<open>str.strip()\<close> removes from both ends the code points that count as whitespace: the
  ASCII controls 09 to 0D and 1C to 1F, the space, and outside ASCII 85, A0, 1680, 2000 to
  200A, 2028, 2029, 202F, 205F and 3000.

  \<^verbatim>\<open>str.lower()\<close> replaces each code point by its lowercase form. The forms that hold an
  ASCII code point are those of the letters A to Z, of 212A (the Kelvin sign, to \<^verbatim>\<open>k\<close>) and
  of 0130 (to \<^verbatim>\<open>i\<close> followed by 0307). Any other code point is left in place here, where
  Python may put another code point outside ASCII; the program only ever compares a
  lowered string with an ASCII literal, and on the answer of such a comparison the two
  agree.
\<close>

type_synonym ustring = "nat list"

definition ustr :: "string \<Rightarrow> ustring" where
  "ustr s = map of_char s"

definition lower_char :: "nat \<Rightarrow> nat list" where
  "lower_char c =
     (if 0x41 \<le> c \<and> c \<le> 0x5A then [c + 0x20]
      else if c = 0x212A then [0x6B]
      else if c = 0x130 then [0x69, 0x307]
      else [c])"

definition py_lower :: "ustring \<Rightarrow> ustring" where
  "py_lower s = concat (map lower_char s)"

definition is_space :: "nat \<Rightarrow> bool" where
  "is_space c =
     ((0x09 \<le> c \<and> c \<le> 0x0D) \<or> (0x1C \<le> c \<and> c \<le> 0x20) \<or> c = 0x85 \<or> c = 0xA0 \<or>
      c = 0x1680 \<or> (0x2000 \<le> c \<and> c \<le> 0x200A) \<or> c = 0x2028 \<or> c = 0x2029 \<or>
      c = 0x202F \<or> c = 0x205F \<or> c = 0x3000)"

definition py_strip :: "ustring \<Rightarrow> ustring" where
  "py_strip s = rev (dropWhile is_space (rev (dropWhile is_space s)))"

text \<open>
  All other text (names of folders and files, cells of the table, messages) is only put
  together and compared: it stays a list of characters. \<open>string_of_nat\<close> is the decimal
  form Python prints for an integer.
\<close>

function string_of_nat :: "nat \<Rightarrow> string" where
  "string_of_nat n =
     (if n < 10 then [''0123456789'' ! n]
      else string_of_nat (n div 10) @ [''0123456789'' ! (n mod 10)])"
  by pat_completeness auto
termination
  by (relation "measure id") auto

declare string_of_nat.simps [simp del]

definition string_of_int :: "int \<Rightarrow> string" where
  "string_of_int i = (if i < 0 then CHR ''-'' # string_of_nat (nat (- i)) else string_of_nat (nat i))"

text \<open>
  \<^verbatim>\<open>os.path.join\<close> of two components (POSIX): an absolute second component replaces
  the first, otherwise one separator stands between them.
\<close>

definition path_join :: "string \<Rightarrow> string \<Rightarrow> string" where
  "path_join a b =
     (if b \<noteq> [] \<and> hd b = CHR ''/'' then b
      else if a = [] \<or> last a = CHR ''/'' then a @ b
      else a @ ''/'' @ b)"

subsection \<open>Rows of the input table\<close>

text \<open>
  A row is a pandas \<^verbatim>\<open>Series\<close>: column names with their cell values. A cell read from a
  CSV file is a string, an integer or the missing-value marker NaN (floating-point cells
  are not modelled). \<^verbatim>\<open>Series.get(key, default)\<close> answers the default only when the
  column is absent; an empty cell of a column that exists is NaN.
\<close>

datatype cell = Str string | Num int | NaN

type_synonym row = "(string \<times> cell) list"

definition series_get :: "row \<Rightarrow> string \<Rightarrow> cell \<Rightarrow> cell" where
  "series_get layer key dflt = (case map_of layer key of Some v \<Rightarrow> v | None \<Rightarrow> dflt)"

text \<open>\<^verbatim>\<open>f"{v}"\<close>, the truth value of \<^verbatim>\<open>if v:\<close>, and \<^verbatim>\<open>v != "SUCCESS"\<close>.\<close>

fun py_str :: "cell \<Rightarrow> string" where
  "py_str (Str s) = s"
| "py_str (Num i) = string_of_int i"
| "py_str NaN = ''nan''"

fun truthy :: "cell \<Rightarrow> bool" where
  "truthy (Str s) = (s \<noteq> [])"
| "truthy (Num i) = (i \<noteq> 0)"
| "truthy NaN = True"

definition has_error :: "row \<Rightarrow> bool" where
  "has_error layer = (series_get layer ''Error'' (Str ''SUCCESS'') \<noteq> Str ''SUCCESS'')"

subsection \<open>The outside world\<close>

text \<open>
  The exceptions the program can meet: the end of standard input, a failure of the file
  system with its message, \<^verbatim>\<open>sys.exit\<close> with its status, an index outside the table, and
  the use of an attribute of \<^verbatim>\<open>None\<close> (the table before it is loaded). \<open>exn_str\<close> is
  \<^verbatim>\<open>str(e)\<close>.
\<close>

datatype exn = EOFError | OSError string | SystemExit nat | IndexError | AttributeError string

fun exn_str :: "exn \<Rightarrow> string" where
  "exn_str EOFError = ''EOF when reading a line''"
| "exn_str (OSError m) = m"
| "exn_str (SystemExit n) = string_of_nat n"
| "exn_str IndexError = ''single positional indexer is out-of-bounds''"
| "exn_str (AttributeError a) =
     CHR 0x27 # ''NoneType'' @ CHR 0x27 # '' object has no attribute '' @ CHR 0x27 # a @ [CHR 0x27]"

datatype payload =
    Json row
  | Image string
  | SummaryText string nat nat nat "string list"
  | Chart nat nat

datatype effect =
    MkDir string
  | Write string payload
  | Get cell
  | Spawn nat

text \<open>
  The oracles: whether creating a folder fails, whether opening-and-writing a path fails
  (each with the exception's message), what a request for a URL answers (the failure's
  message, or the body; a bad HTTP status is a failure through \<^verbatim>\<open>raise_for_status\<close>),
  what \<^verbatim>\<open>pd.read_csv\<close> makes of a file name, and whether drawing the chart of two counts
  and saving it under a path fails.
\<close>

record env =
  makedirs_error :: "string \<Rightarrow> string option"
  open_error :: "string \<Rightarrow> string option"
  http_get :: "cell \<Rightarrow> string + string"
  read_csv :: "string \<Rightarrow> string + row list"
  savefig_error :: "string \<Rightarrow> nat \<Rightarrow> nat \<Rightarrow> string option"

subsection \<open>The object\<close>

record printer =
  print_name :: string
  output_folder :: string
  mode :: ustring
  csv_data :: "row list option"
  total_layers :: nat
  successful_layers :: nat
  failed_layers :: nat
  error_log :: "string list"
  effects :: "effect list"

definition FakePrinter_init :: "env \<Rightarrow> string \<Rightarrow> string \<Rightarrow> ustring \<Rightarrow> exn + printer" where
  "FakePrinter_init e name folder m =
     (case makedirs_error e folder of
        Some msg \<Rightarrow> Inl (OSError msg)
      | None \<Rightarrow>
          Inr \<lparr>print_name = name, output_folder = folder, mode = py_lower m,
               csv_data = None, total_layers = 0, successful_layers = 0,
               failed_layers = 0, error_log = [], effects = [MkDir folder]\<rparr>)"

definition load_csv_data :: "env \<Rightarrow> printer \<Rightarrow> string \<Rightarrow> exn option \<times> printer" where
  "load_csv_data e p csv_file =
     (case read_csv e csv_file of
        Inl msg \<Rightarrow> (Some (SystemExit 1), p)
      | Inr rows \<Rightarrow> (None, p\<lparr>csv_data := Some rows, total_layers := length rows\<rparr>))"

subsection \<open>Where a layer's artifacts go\<close>

definition layer_number_of :: "row \<Rightarrow> cell" where
  "layer_number_of layer = series_get layer ''Layer Number'' (Str ''unknown'')"

definition layer_folder_of :: "string \<Rightarrow> row \<Rightarrow> string" where
  "layer_folder_of folder layer = path_join folder (''layer_'' @ py_str (layer_number_of layer))"

definition layer_data_file_of :: "string \<Rightarrow> row \<Rightarrow> string" where
  "layer_data_file_of folder layer = path_join (layer_folder_of folder layer) ''layer_data.txt''"

definition image_path_of :: "string \<Rightarrow> row \<Rightarrow> string" where
  "image_path_of folder layer =
     path_join (layer_folder_of folder layer) (''layer_'' @ py_str (layer_number_of layer) @ ''.png'')"

definition image_url_of :: "row \<Rightarrow> cell" where
  "image_url_of layer = series_get layer ''image url'' (Str [])"

subsection \<open>The asynchronous layer processor\<close>

text \<open>
  \<^verbatim>\<open>fetch_layer_supervised\<close> of \<^verbatim>\<open>smart_driver.py\<close>: the tuple it returns (layer number,
  success flag, error message) or the exception it raises, with the effects it had.
  The folder is created outside every \<^verbatim>\<open>try\<close>; the request and the writing of the
  image share one \<^verbatim>\<open>try\<close>, which reports both as a download error.
\<close>

type_synonym result = "cell \<times> bool \<times> string option"

definition fetch_layer_supervised :: "env \<Rightarrow> string \<Rightarrow> row \<Rightarrow> (exn + result) \<times> effect list" where
  "fetch_layer_supervised e folder layer =
     (let layer_number = layer_number_of layer;
          layer_folder = layer_folder_of folder layer
      in case makedirs_error e layer_folder of
           Some msg \<Rightarrow> (Inl (OSError msg), [])
         | None \<Rightarrow>
            (let layer_data_file = layer_data_file_of folder layer
             in case open_error e layer_data_file of
                  Some msg \<Rightarrow>
                    (Inr (layer_number, False, Some (''Error writing layer data: '' @ msg)),
                     [MkDir layer_folder])
                | None \<Rightarrow>
                   (let csv_error = series_get layer ''Error'' (Str ''SUCCESS'');
                        inherent_error = (csv_error \<noteq> Str ''SUCCESS'');
                        image_url = image_url_of layer;
                        done = [MkDir layer_folder, Write layer_data_file (Json layer)];
                        final = (if inherent_error
                                 then (layer_number, False,
                                       Some (''Inherent CSV error: '' @ py_str csv_error))
                                 else (layer_number, True, None))
                    in if truthy image_url then
                         (case http_get e image_url of
                            Inl msg \<Rightarrow>
                              (Inr (layer_number, False, Some (''Error downloading image: '' @ msg)),
                               done @ [Get image_url])
                          | Inr content \<Rightarrow>
                             (case open_error e (image_path_of folder layer) of
                                Some msg \<Rightarrow>
                                  (Inr (layer_number, False,
                                        Some (''Error downloading image: '' @ msg)),
                                   done @ [Get image_url])
                              | None \<Rightarrow>
                                  (Inr final,
                                   done @ [Get image_url,
                                           Write (image_path_of folder layer) (Image content)])))
                       else (Inr final, done))))"

text \<open>\<^verbatim>\<open>print_layer_async\<close> of \<^verbatim>\<open>multi_driver.py\<close>: the same steps in the same order.\<close>

definition print_layer_async :: "env \<Rightarrow> string \<Rightarrow> row \<Rightarrow> (exn + result) \<times> effect list" where
  "print_layer_async e folder layer =
     (let layer_number = layer_number_of layer;
          layer_folder = layer_folder_of folder layer
      in case makedirs_error e layer_folder of
           Some msg \<Rightarrow> (Inl (OSError msg), [])
         | None \<Rightarrow>
            (let layer_data_file = layer_data_file_of folder layer
             in case open_error e layer_data_file of
                  Some msg \<Rightarrow>
                    (let err_msg = ''Error writing layer data: '' @ msg
                     in (Inr (layer_number, False, Some err_msg), [MkDir layer_folder]))
                | None \<Rightarrow>
                   (let csv_error = series_get layer ''Error'' (Str ''SUCCESS'');
                        inherent_error = (if csv_error \<noteq> Str ''SUCCESS'' then True else False);
                        image_url = image_url_of layer;
                        done = [MkDir layer_folder, Write layer_data_file (Json layer)];
                        final = (if inherent_error
                                 then (layer_number, False,
                                       Some (''Inherent CSV error: '' @ py_str csv_error))
                                 else (layer_number, True, None))
                    in if truthy image_url then
                         (case http_get e image_url of
                            Inl msg \<Rightarrow>
                              (let err_msg = ''Error downloading image: '' @ msg
                               in (Inr (layer_number, False, Some err_msg), done @ [Get image_url]))
                          | Inr content \<Rightarrow>
                             (case open_error e (image_path_of folder layer) of
                                Some msg \<Rightarrow>
                                  (let err_msg = ''Error downloading image: '' @ msg
                                   in (Inr (layer_number, False, Some err_msg),
                                       done @ [Get image_url]))
                              | None \<Rightarrow>
                                  (Inr final,
                                   done @ [Get image_url,
                                           Write (image_path_of folder layer) (Image content)])))
                       else (Inr final, done))))"

subsection \<open>The synchronous layer processor\<close>

text \<open>
  \<^verbatim>\<open>print_layer\<close> updates the counters and the error log itself and never looks at the
  row's \<^verbatim>\<open>Error\<close> column. In \<^verbatim>\<open>normal_driver.py\<close> the download is guarded by
  \<^verbatim>\<open>except requests.RequestException\<close>, so a failure to write the image file escapes;
  in \<^verbatim>\<open>multi_driver.py\<close> the guard is \<^verbatim>\<open>except Exception\<close> and counts it as a failed
  layer. (\<^verbatim>\<open>smart_driver.py\<close> carries the method of \<^verbatim>\<open>multi_driver.py\<close> too; nothing
  calls it there.)
\<close>

definition layer_failed :: "printer \<Rightarrow> string \<Rightarrow> effect list \<Rightarrow> printer" where
  "layer_failed p entry effs =
     p\<lparr>error_log := error_log p @ [entry],
       failed_layers := failed_layers p + 1,
       effects := effects p @ effs\<rparr>"

definition layer_succeeded :: "printer \<Rightarrow> effect list \<Rightarrow> printer" where
  "layer_succeeded p effs =
     p\<lparr>successful_layers := successful_layers p + 1, effects := effects p @ effs\<rparr>"

definition normal_print_layer :: "env \<Rightarrow> printer \<Rightarrow> row \<Rightarrow> exn option \<times> printer" where
  "normal_print_layer e p layer_data =
     (let layer_number = layer_number_of layer_data;
          layer_folder = layer_folder_of (output_folder p) layer_data
      in case makedirs_error e layer_folder of
           Some msg \<Rightarrow> (Some (OSError msg), p)
         | None \<Rightarrow>
            (let layer_data_file = layer_data_file_of (output_folder p) layer_data
             in case open_error e layer_data_file of
                  Some msg \<Rightarrow>
                    (None,
                     layer_failed p
                       (''Layer '' @ py_str layer_number @ '': Error writing data: '' @ msg)
                       [MkDir layer_folder])
                | None \<Rightarrow>
                   (let image_url = image_url_of layer_data;
                        done = [MkDir layer_folder, Write layer_data_file (Json layer_data)]
                    in if truthy image_url then
                         (let image_path = image_path_of (output_folder p) layer_data
                          in case http_get e image_url of
                               Inl msg \<Rightarrow>
                                 (None,
                                  layer_failed p (''Layer '' @ py_str layer_number @ '': '' @ msg)
                                    (done @ [Get image_url]))
                             | Inr content \<Rightarrow>
                                (case open_error e image_path of
                                   Some msg \<Rightarrow>
                                     (Some (OSError msg),
                                      p\<lparr>effects := effects p @ done @ [Get image_url]\<rparr>)
                                 | None \<Rightarrow>
                                     (None,
                                      layer_succeeded p
                                        (done @ [Get image_url, Write image_path (Image content)]))))
                       else (None, layer_succeeded p done))))"

definition multi_print_layer :: "env \<Rightarrow> printer \<Rightarrow> row \<Rightarrow> exn option \<times> printer" where
  "multi_print_layer e p layer_data =
     (let layer_number = layer_number_of layer_data;
          layer_folder = layer_folder_of (output_folder p) layer_data
      in case makedirs_error e layer_folder of
           Some msg \<Rightarrow> (Some (OSError msg), p)
         | None \<Rightarrow>
            (let layer_data_file = layer_data_file_of (output_folder p) layer_data
             in case open_error e layer_data_file of
                  Some msg \<Rightarrow>
                    (None,
                     layer_failed p
                       (''Layer '' @ py_str layer_number @ '': Error writing data: '' @ msg)
                       [MkDir layer_folder])
                | None \<Rightarrow>
                   (let image_url = image_url_of layer_data;
                        done = [MkDir layer_folder, Write layer_data_file (Json layer_data)]
                    in if truthy image_url then
                         (let image_path = image_path_of (output_folder p) layer_data
                          in case http_get e image_url of
                               Inl msg \<Rightarrow>
                                 (None,
                                  layer_failed p (''Layer '' @ py_str layer_number @ '': '' @ msg)
                                    (done @ [Get image_url]))
                             | Inr content \<Rightarrow>
                                (case open_error e image_path of
                                   Some msg \<Rightarrow>
                                     (None,
                                      layer_failed p
                                        (''Layer '' @ py_str layer_number @ '': '' @ msg)
                                        (done @ [Get image_url]))
                                 | None \<Rightarrow>
                                     (None,
                                      layer_succeeded p
                                        (done @ [Get image_url, Write image_path (Image content)]))))
                       else (None, layer_succeeded p done))))"

subsection \<open>The sequential modes\<close>

text \<open>
  How a mode's loop ended: it ran out of rows, the user stopped it (\<^verbatim>\<open>break\<close>), or an
  exception left it. Standard input is a list of lines; \<^verbatim>\<open>input()\<close> on the empty list
  raises \<^verbatim>\<open>EOFError\<close>.
\<close>

datatype loop_exit = Exhausted | Aborted | Raised exn

definition is_quit :: "ustring \<Rightarrow> bool" where
  "is_quit user_input = (py_lower (py_strip user_input) = ustr ''q'')"

definition is_end :: "ustring \<Rightarrow> bool" where
  "is_end choice = (py_lower (py_strip choice) = ustr ''e'')"

type_synonym print_layer_fn = "env \<Rightarrow> printer \<Rightarrow> row \<Rightarrow> exn option \<times> printer"

text \<open>
  The body of \<^verbatim>\<open>supervised_mode\<close>, the same text in \<^verbatim>\<open>normal_driver.py\<close> and
  \<^verbatim>\<open>multi_driver.py\<close>; \<open>pl\<close> is the \<^verbatim>\<open>print_layer\<close> of the class it runs in.
\<close>

fun supervised_rows ::
  "print_layer_fn \<Rightarrow> env \<Rightarrow> row list \<Rightarrow> printer \<Rightarrow> ustring list
     \<Rightarrow> loop_exit \<times> printer \<times> ustring list" where
  "supervised_rows pl e [] p ins = (Exhausted, p, ins)"
| "supervised_rows pl e (layer # rest) p [] = (Raised EOFError, p, [])"
| "supervised_rows pl e (layer # rest) p (user_input # ins) =
     (if is_quit user_input then (Aborted, p, ins)
      else if has_error layer then
        (case ins of
           [] \<Rightarrow> (Raised EOFError, p, [])
         | choice # ins' \<Rightarrow>
             if is_end choice then (Aborted, p, ins')
             else (case pl e p layer of
                     (Some x, p') \<Rightarrow> (Raised x, p', ins')
                   | (None, p') \<Rightarrow> supervised_rows pl e rest p' ins'))
      else (case pl e p layer of
              (Some x, p') \<Rightarrow> (Raised x, p', ins)
            | (None, p') \<Rightarrow> supervised_rows pl e rest p' ins))"

definition supervised_mode ::
  "print_layer_fn \<Rightarrow> env \<Rightarrow> printer \<Rightarrow> ustring list \<Rightarrow> loop_exit \<times> printer \<times> ustring list" where
  "supervised_mode pl e p ins =
     (case csv_data p of
        None \<Rightarrow> (Raised (AttributeError ''iterrows''), p, ins)
      | Some rows \<Rightarrow> supervised_rows pl e rows p ins)"

definition normal_supervised_mode ::
  "env \<Rightarrow> printer \<Rightarrow> ustring list \<Rightarrow> loop_exit \<times> printer \<times> ustring list" where
  "normal_supervised_mode = supervised_mode normal_print_layer"

definition multi_supervised_mode ::
  "env \<Rightarrow> printer \<Rightarrow> ustring list \<Rightarrow> loop_exit \<times> printer \<times> ustring list" where
  "multi_supervised_mode = supervised_mode multi_print_layer"

text \<open>
  \<^verbatim>\<open>automatic_mode\<close> of \<^verbatim>\<open>normal_driver.py\<close>: a row whose \<^verbatim>\<open>Error\<close> column is set is logged
  as failed and not printed at all.
\<close>

fun automatic_rows :: "env \<Rightarrow> row list \<Rightarrow> printer \<Rightarrow> loop_exit \<times> printer" where
  "automatic_rows e [] p = (Exhausted, p)"
| "automatic_rows e (layer # rest) p =
     (if has_error layer then
        automatic_rows e rest
          (layer_failed p
             (''Layer '' @ py_str (layer_number_of layer) @ '': ''
                @ py_str (series_get layer ''Error'' (Str ''None'')))
             [])
      else (case normal_print_layer e p layer of
              (Some x, p') \<Rightarrow> (Raised x, p')
            | (None, p') \<Rightarrow> automatic_rows e rest p'))"

definition automatic_mode :: "env \<Rightarrow> printer \<Rightarrow> loop_exit \<times> printer" where
  "automatic_mode e p =
     (case csv_data p of
        None \<Rightarrow> (Raised (AttributeError ''iterrows''), p)
      | Some rows \<Rightarrow> automatic_rows e rows p)"

subsection \<open>The summary\<close>

text \<open>Both writes are inside a \<^verbatim>\<open>try\<close> that only prints: the method never raises.\<close>

definition generate_summary :: "env \<Rightarrow> printer \<Rightarrow> printer" where
  "generate_summary e p =
     (let summary_file = path_join (output_folder p) ''print_summary.txt'';
          chart_path = path_join (output_folder p) ''print_summary_chart.png'';
          text_written =
            (case open_error e summary_file of
               Some msg \<Rightarrow> []
             | None \<Rightarrow>
                 [Write summary_file
                    (SummaryText (print_name p) (total_layers p) (successful_layers p)
                       (failed_layers p) (error_log p))]);
          chart_written =
            (case savefig_error e chart_path (successful_layers p) (failed_layers p) of
               Some msg \<Rightarrow> []
             | None \<Rightarrow> [Write chart_path (Chart (successful_layers p) (failed_layers p))])
      in p\<lparr>effects := effects p @ text_written @ chart_written\<rparr>)"

subsection \<open>\<^verbatim>\<open>run\<close> of \<^verbatim>\<open>normal_driver.py\<close>\<close>

definition normal_run ::
  "env \<Rightarrow> printer \<Rightarrow> string \<Rightarrow> ustring list \<Rightarrow> exn option \<times> printer \<times> ustring list" where
  "normal_run e p csv_file ins =
     (case load_csv_data e p csv_file of
        (Some x, p1) \<Rightarrow> (Some x, p1, ins)
      | (None, p1) \<Rightarrow>
          if mode p1 = ustr ''supervised'' then
            (case normal_supervised_mode e p1 ins of
               (Raised x, p2, ins') \<Rightarrow> (Some x, p2, ins')
             | (_, p2, ins') \<Rightarrow> (None, generate_summary e p2, ins'))
          else if mode p1 = ustr ''automatic'' then
            (case automatic_mode e p1 of
               (Raised x, p2) \<Rightarrow> (Some x, p2, ins)
             | (_, p2) \<Rightarrow> (None, generate_summary e p2, ins))
          else (Some (SystemExit 1), p1, ins))"

subsection \<open>Concurrent tasks\<close>

text \<open>
  An \<^verbatim>\<open>asyncio\<close> task is pending, with the row it was created for, or finished with the
  tuple it returned or the exception it raised. A task takes its steps only while the main
  coroutine waits; which tasks finish during a wait, and in which order, is not up to the
  program, so it is an input: an event \<open>Complete i\<close> says that the task of row \<open>i\<close>
  has run to its end, an event \<open>Input s\<close> that the user has typed the line \<open>s\<close>. The
  trace holds the effects of a task from the moment it finishes, in one piece; what a task
  has done by the time it is suspended or cancelled is not in the trace.
\<close>

datatype task = Pending row | Finished "exn + result"

datatype event = Complete nat | Input ustring

record frame =
  prefetched :: "(nat \<times> task) list"
  next_index_to_prefetch :: nat
  current_index :: nat
  delivered :: "(nat \<times> result) list"
  self :: printer

text \<open>
  The frame holds the locals of \<^verbatim>\<open>supervised_mode_async\<close> and the object. The dictionary
  \<^verbatim>\<open>prefetched\<close> is an association list in insertion order. \<open>delivered\<close> is a history
  variable: the index and the tuple of every result the loop has unpacked.
\<close>

definition iloc :: "printer \<Rightarrow> nat \<Rightarrow> exn + row" where
  "iloc p i =
     (case csv_data p of
        None \<Rightarrow> Inl (AttributeError ''iloc'')
      | Some rows \<Rightarrow> if i < length rows then Inr (rows ! i) else Inl IndexError)"

definition add_effects :: "effect list \<Rightarrow> frame \<Rightarrow> frame" where
  "add_effects effs f = f\<lparr>self := (self f)\<lparr>effects := effects (self f) @ effs\<rparr>\<rparr>"

text \<open>
  The loop that fills the dictionary, written twice in the source: with the bound
  \<^verbatim>\<open>initial_prefetch\<close> before the first prompt, with \<^verbatim>\<open>max_prefetch\<close> after each layer.
\<close>

function prefetch_loop :: "nat \<Rightarrow> frame \<Rightarrow> exn option \<times> frame" where
  "prefetch_loop limit f =
     (if next_index_to_prefetch f < total_layers (self f) \<and> length (prefetched f) < limit then
        (case iloc (self f) (next_index_to_prefetch f) of
           Inl x \<Rightarrow> (Some x, f)
         | Inr layer \<Rightarrow>
             prefetch_loop limit
               (add_effects [Spawn (next_index_to_prefetch f)]
                  (f\<lparr>prefetched :=
                       AList.update (next_index_to_prefetch f) (Pending layer) (prefetched f),
                     next_index_to_prefetch := next_index_to_prefetch f + 1\<rparr>)))
      else (None, f))"
  by pat_completeness auto
termination
  by (relation "measure (\<lambda>(limit, f). total_layers (self f) - next_index_to_prefetch f)")
     (auto simp: add_effects_def)

declare prefetch_loop.simps [simp del]

definition complete_task :: "env \<Rightarrow> nat \<Rightarrow> frame \<Rightarrow> frame" where
  "complete_task e i f =
     (case map_of (prefetched f) i of
        Some (Pending layer) \<Rightarrow>
          (case fetch_layer_supervised e (output_folder (self f)) layer of
             (r, effs) \<Rightarrow>
               add_effects effs (f\<lparr>prefetched := AList.update i (Finished r) (prefetched f)\<rparr>))
      | _ \<Rightarrow> f)"

text \<open>\<^verbatim>\<open>except Exception\<close> does not catch \<^verbatim>\<open>SystemExit\<close>.\<close>

fun is_Exception :: "exn \<Rightarrow> bool" where
  "is_Exception (SystemExit n) = False"
| "is_Exception x = True"

fun opt_str :: "string option \<Rightarrow> string" where
  "opt_str None = ''None''"
| "opt_str (Some s) = s"

definition fold_result :: "result \<Rightarrow> printer \<Rightarrow> printer" where
  "fold_result r p =
     (case r of (layer_number, success, error) \<Rightarrow>
        if success then p\<lparr>successful_layers := successful_layers p + 1\<rparr>
        else p\<lparr>failed_layers := failed_layers p + 1,
               error_log := error_log p @ [''Layer '' @ py_str layer_number @ '': '' @ opt_str error]\<rparr>)"

text \<open>
  One pass through the body of the \<^verbatim>\<open>while current_index < total_layers\<close> loop, after a
  line other than \<^verbatim>\<open>q\<close> was read. Awaiting a pending task lets it run to its end.
\<close>

definition consumer_body :: "nat \<Rightarrow> env \<Rightarrow> frame \<Rightarrow> exn option \<times> frame" where
  "consumer_body max_prefetch e f =
     (let i = current_index f;
          refill = (\<lambda>g. prefetch_loop max_prefetch (g\<lparr>current_index := i + 1\<rparr>))
      in case map_of (prefetched f) i of
           None \<Rightarrow> refill f
         | Some t \<Rightarrow>
            (let f1 = complete_task e i f;
                 awaited = (case t of
                              Finished r \<Rightarrow> r
                            | Pending layer \<Rightarrow>
                                fst (fetch_layer_supervised e (output_folder (self f)) layer));
                 fold_in = (\<lambda>r. refill
                              (f1\<lparr>self := fold_result r (self f1),
                                  delivered := delivered f1 @ [(i, r)],
                                  prefetched := AList.delete i (prefetched f1)\<rparr>))
             in case awaited of
                  Inr r \<Rightarrow> fold_in r
                | Inl x \<Rightarrow>
                    if is_Exception x then
                      (case iloc (self f1) i of
                         Inl y \<Rightarrow> (Some y, f1)
                       | Inr layer \<Rightarrow>
                           fold_in (layer_number_of layer, False, Some (''Error: '' @ exn_str x)))
                    else (Some x, f1)))"

fun consumer_loop ::
  "nat \<Rightarrow> env \<Rightarrow> frame \<Rightarrow> event list \<Rightarrow> loop_exit \<times> frame \<times> event list" where
  "consumer_loop max_prefetch e f evs =
     (if current_index f < total_layers (self f) then
        (case evs of
           [] \<Rightarrow> (Raised EOFError, f, [])
         | Complete i # rest \<Rightarrow> consumer_loop max_prefetch e (complete_task e i f) rest
         | Input user_input # rest \<Rightarrow>
             if is_quit user_input then (Aborted, f, rest)
             else (case consumer_body max_prefetch e f of
                     (Some x, f') \<Rightarrow> (Raised x, f', rest)
                   | (None, f') \<Rightarrow> consumer_loop max_prefetch e f' rest))
      else (Exhausted, f, evs))"

declare consumer_loop.simps [simp del]

definition prefetch_scheduler ::
  "nat \<Rightarrow> nat \<Rightarrow> env \<Rightarrow> printer \<Rightarrow> event list \<Rightarrow> loop_exit \<times> frame \<times> event list" where
  "prefetch_scheduler max_prefetch initial_prefetch e p evs =
     (case prefetch_loop initial_prefetch
             \<lparr>prefetched = [], next_index_to_prefetch = 0, current_index = 0,
              delivered = [], self = p\<rparr> of
        (Some x, f) \<Rightarrow> (Raised x, f, evs)
      | (None, f) \<Rightarrow> consumer_loop max_prefetch e f evs)"

text \<open>\<^verbatim>\<open>supervised_mode_async\<close> of \<^verbatim>\<open>smart_driver.py\<close>: the window is 10, the first fill 6.\<close>

definition supervised_mode_async ::
  "env \<Rightarrow> printer \<Rightarrow> event list \<Rightarrow> loop_exit \<times> frame \<times> event list" where
  "supervised_mode_async e p evs = prefetch_scheduler 10 6 e p evs"

subsection \<open>The concurrent automatic mode\<close>

text \<open>
  \<^verbatim>\<open>asyncio.gather\<close> answers the results in the order of its arguments, whatever the order
  the tasks finish in, and with \<^verbatim>\<open>return_exceptions=False\<close> it raises the first exception
  a task raises. The tasks finish in the order \<open>sched\<close> names them, the unnamed ones
  after those, by index; the tasks that have not finished when one raises are cancelled
  when the program shuts its event loop down. Every order is allowed for, also those the
  event loop would not choose.
\<close>

definition completion_order :: "nat list \<Rightarrow> nat \<Rightarrow> nat list" where
  "completion_order sched n =
     (let named = remdups (filter (\<lambda>i. i < n) sched)
      in named @ filter (\<lambda>i. i \<notin> set named) [0..<n])"

definition gather ::
  "(row \<Rightarrow> (exn + result) \<times> effect list) \<Rightarrow> nat list \<Rightarrow> row list
     \<Rightarrow> (exn + result list) \<times> effect list" where
  "gather proc sched rows =
     (let outs = map proc rows;
          order = completion_order sched (length rows);
          spawned = map Spawn [0..<length rows]
      in case List.find (\<lambda>i. isl (fst (outs ! i))) order of
           Some i \<Rightarrow>
             (Inl (projl (fst (outs ! i))),
              spawned @ concat (map (\<lambda>j. snd (outs ! j)) (takeWhile (\<lambda>j. j \<noteq> i) order @ [i])))
         | None \<Rightarrow>
             (Inr (map (\<lambda>out. projr (fst out)) outs),
              spawned @ concat (map (\<lambda>j. snd (outs ! j)) order)))"

definition automatic_mode_async ::
  "(env \<Rightarrow> string \<Rightarrow> row \<Rightarrow> (exn + result) \<times> effect list) \<Rightarrow> env \<Rightarrow> printer \<Rightarrow> nat list
     \<Rightarrow> loop_exit \<times> printer" where
  "automatic_mode_async proc e p sched =
     (case csv_data p of
        None \<Rightarrow> (Raised (AttributeError ''iterrows''), p)
      | Some rows \<Rightarrow>
         (case gather (proc e (output_folder p)) sched rows of
            (Inl x, effs) \<Rightarrow> (Raised x, p\<lparr>effects := effects p @ effs\<rparr>)
          | (Inr results, effs) \<Rightarrow>
              (Exhausted, foldl (\<lambda>q r. fold_result r q) (p\<lparr>effects := effects p @ effs\<rparr>) results)))"

definition multi_automatic_mode_async :: "env \<Rightarrow> printer \<Rightarrow> nat list \<Rightarrow> loop_exit \<times> printer" where
  "multi_automatic_mode_async = automatic_mode_async print_layer_async"

definition smart_automatic_mode_async :: "env \<Rightarrow> printer \<Rightarrow> nat list \<Rightarrow> loop_exit \<times> printer" where
  "smart_automatic_mode_async = automatic_mode_async fetch_layer_supervised"

subsection \<open>\<^verbatim>\<open>run\<close> of \<^verbatim>\<open>multi_driver.py\<close> and of \<^verbatim>\<open>smart_driver.py\<close>\<close>

definition multi_run ::
  "env \<Rightarrow> printer \<Rightarrow> string \<Rightarrow> ustring list \<Rightarrow> nat list
     \<Rightarrow> exn option \<times> printer \<times> ustring list" where
  "multi_run e p csv_file ins sched =
     (case load_csv_data e p csv_file of
        (Some x, p1) \<Rightarrow> (Some x, p1, ins)
      | (None, p1) \<Rightarrow>
          if mode p1 = ustr ''supervised'' then
            (case multi_supervised_mode e p1 ins of
               (Raised x, p2, ins') \<Rightarrow> (Some x, p2, ins')
             | (_, p2, ins') \<Rightarrow> (None, generate_summary e p2, ins'))
          else if mode p1 = ustr ''automatic'' then
            (case multi_automatic_mode_async e p1 sched of
               (Raised x, p2) \<Rightarrow> (Some x, p2, ins)
             | (_, p2) \<Rightarrow> (None, generate_summary e p2, ins))
          else (Some (SystemExit 1), p1, ins))"

definition completions :: "event list \<Rightarrow> nat list" where
  "completions evs = concat (map (\<lambda>ev. case ev of Complete i \<Rightarrow> [i] | Input s \<Rightarrow> []) evs)"

definition smart_run ::
  "env \<Rightarrow> printer \<Rightarrow> string \<Rightarrow> event list \<Rightarrow> exn option \<times> printer \<times> event list" where
  "smart_run e p csv_file evs =
     (case load_csv_data e p csv_file of
        (Some x, p1) \<Rightarrow> (Some x, p1, evs)
      | (None, p1) \<Rightarrow>
          if mode p1 = ustr ''supervised'' then
            (case supervised_mode_async e p1 evs of
               (Raised x, f, evs') \<Rightarrow> (Some x, self f, evs')
             | (_, f, evs') \<Rightarrow> (None, generate_summary e (self f), evs'))
          else if mode p1 = ustr ''automatic'' then
            (case smart_automatic_mode_async e p1 (completions evs) of
               (Raised x, p2) \<Rightarrow> (Some x, p2, evs)
             | (_, p2) \<Rightarrow> (None, generate_summary e p2, evs))
          else (Some (SystemExit 1), p1, evs))"

subsection \<open>Reading the traces\<close>

definition written_paths :: "effect list \<Rightarrow> string list" where
  "written_paths effs =
     concat (map (\<lambda>eff. case eff of Write path c \<Rightarrow> [path] | _ \<Rightarrow> []) effs)"

definition requested :: "effect list \<Rightarrow> cell list" where
  "requested effs = concat (map (\<lambda>eff. case eff of Get url \<Rightarrow> [url] | _ \<Rightarrow> []) effs)"

definition spawned :: "effect list \<Rightarrow> nat list" where
  "spawned effs = concat (map (\<lambda>eff. case eff of Spawn i \<Rightarrow> [i] | _ \<Rightarrow> []) effs)"

definition inputs_of :: "event list \<Rightarrow> ustring list" where
  "inputs_of evs = concat (map (\<lambda>ev. case ev of Input s \<Rightarrow> [s] | Complete i \<Rightarrow> []) evs)"

text \<open>The lines the user confirms with, up to the first \<^verbatim>\<open>q\<close>.\<close>

definition confirmations :: "event list \<Rightarrow> ustring list" where
  "confirmations evs = takeWhile (\<lambda>s. \<not> is_quit s) (inputs_of evs)"

text \<open>
  What the supervised loop unpacks when it awaits the task of a row: the tuple the task
  returned, or the tuple the \<^verbatim>\<open>except\<close> clause builds from the exception.
\<close>

definition awaited_result :: "env \<Rightarrow> string \<Rightarrow> row \<Rightarrow> result" where
  "awaited_result e folder layer =
     (case fst (fetch_layer_supervised e folder layer) of
        Inr r \<Rightarrow> r
      | Inl x \<Rightarrow> (layer_number_of layer, False, Some (''Error: '' @ exn_str x)))"



text \<open>The input and output of every step succeeded: the data file, and the image if there is one.\<close>

definition io_ok :: "env \<Rightarrow> string \<Rightarrow> row \<Rightarrow> bool" where
  "io_ok e folder layer =
     (open_error e (layer_data_file_of folder layer) = None \<and>
      (truthy (image_url_of layer) \<longrightarrow>
         \<not> isl (http_get e (image_url_of layer)) \<and>
         open_error e (image_path_of folder layer) = None))"

text \<open>An object that nothing has happened to since it was constructed for a folder.\<close>

definition untouched :: "string \<Rightarrow> printer \<Rightarrow> bool" where
  "untouched folder p =
     (effects p = [MkDir folder] \<and> successful_layers p = 0 \<and> failed_layers p = 0 \<and>
      error_log p = [])"

subsection \<open>A sample job\<close>

definition jam_row :: row where
  "jam_row = [(''Layer Number'', Num 3), (''image url'', Str ''http://printer/c.png''),
              (''Error'', Str ''Nozzle Jam'')]"

definition sample_rows :: "row list" where
  "sample_rows =
     [[(''Layer Number'', Num 1), (''image url'', Str ''http://printer/a.png''),
       (''Error'', Str ''SUCCESS'')],
      [(''Layer Number'', Num 2), (''image url'', Str ''http://printer/b.png''),
       (''Error'', Str ''SUCCESS'')],
      jam_row]"

definition twin_a :: row where
  "twin_a = [(''Layer Number'', Num 7), (''Error'', Str ''SUCCESS'')]"

definition twin_b :: row where
  "twin_b = [(''Layer Number'', Num 7), (''Error'', Str ''Nozzle Jam'')]"

definition down_row :: row where
  "down_row = [(''Layer Number'', Num 4), (''image url'', Str ''http://down''),
               (''Error'', Str ''Nozzle Jam'')]"

definition nine_row :: row where
  "nine_row = [(''Layer Number'', Num 9), (''image url'', Str ''http://printer/i.png''),
               (''Error'', Str ''Nozzle Jam'')]"

text \<open>
  A world where every folder can be created, every file can be written except under
  \<^verbatim>\<open>/locked\<close> and the image of layer 9, every URL answers except \<^verbatim>\<open>http://down\<close>, and
  \<^verbatim>\<open>jobs.csv\<close> holds the sample rows.
\<close>

definition sample_env :: env where
  "sample_env =
     \<lparr>makedirs_error = (\<lambda>path. None),
      open_error = (\<lambda>path. if take 7 path = ''/locked'' \<or> path = ''out/layer_9/layer_9.png''
                          then Some ''Permission denied'' else None),
      http_get = (\<lambda>url. if url = Str ''http://down'' then Inl ''timed out'' else Inr ''PNG''),
      read_csv = (\<lambda>name. if name = ''jobs.csv'' then Inr sample_rows
                          else Inl ''No such file or directory''),
      savefig_error = (\<lambda>path successful failed. None)\<rparr>"

definition sample_printer :: "string \<Rightarrow> row list \<Rightarrow> printer" where
  "sample_printer m rows =
     \<lparr>print_name = ''job'', output_folder = ''out'', mode = ustr m, csv_data = Some rows,
      total_layers = length rows, successful_layers = 0, failed_layers = 0,
      error_log = [], effects = [MkDir ''out'']\<rparr>"

text \<open>
  The same world, except that the folder of layer 3 cannot be created (a file of that
  name is in the way); and an object whose output folder is under \<^verbatim>\<open>/locked\<close>.
\<close>

definition blocked_env :: env where
  "blocked_env =
     sample_env\<lparr>makedirs_error :=
       (\<lambda>path. if path = ''out/layer_3'' then Some ''File exists'' else None)\<rparr>"

definition locked_printer :: "row list \<Rightarrow> printer" where
  "locked_printer rows = (sample_printer ''supervised'' rows)\<lparr>output_folder := ''/locked''\<rparr>"

text \<open>Two rows of one table whose layer numbers differ by a final path separator.\<close>

definition bare_row :: row where
  "bare_row = [(''Layer Number'', Str ''1''), (''Error'', Str ''SUCCESS'')]"

definition slash_row :: row where
  "slash_row = [(''Layer Number'', Str ''1/''), (''Error'', Str ''SUCCESS'')]"

subsection \<open>The state of the scheduler\<close>

text \<open>
  The counters and the error log after a list of results has been folded in, as the loop
  does one result at a time.
\<close>

definition tally :: "printer \<Rightarrow> result list \<Rightarrow> printer" where
  "tally p results = foldl (\<lambda>q r. fold_result r q) p results"

text \<open>
  What holds of the frame each time the loop of \<^verbatim>\<open>supervised_mode_async\<close> is about to read
  a line, for the rows \<open>rows\<close> and the object \<open>p\<close> the mode was started with: the
  dictionary holds exactly the indices from \<open>current_index\<close> up to
  \<open>next_index_to_prefetch\<close>, in this order, each with the task of its row, pending or
  finished with what the layer processor yields for that row; the results unpacked so far
  are those of the rows before \<open>current_index\<close>, in order; the counters and the log are
  those results folded into the object; and the tasks started are those of the rows
  before \<open>next_index_to_prefetch\<close>.
\<close>

definition task_ok :: "env \<Rightarrow> string \<Rightarrow> row \<Rightarrow> task \<Rightarrow> bool" where
  "task_ok e folder layer t =
     (t = Pending layer \<or> t = Finished (fst (fetch_layer_supervised e folder layer)))"

definition sched_inv :: "env \<Rightarrow> row list \<Rightarrow> printer \<Rightarrow> frame \<Rightarrow> bool" where
  "sched_inv e rows p f =
     (csv_data (self f) = Some rows \<and> total_layers (self f) = length rows \<and>
      output_folder (self f) = output_folder p \<and>
      current_index f \<le> next_index_to_prefetch f \<and>
      next_index_to_prefetch f \<le> length rows \<and>
      map fst (prefetched f) = [current_index f..<next_index_to_prefetch f] \<and>
      (\<forall>(i, t) \<in> set (prefetched f). task_ok e (output_folder p) (rows ! i) t) \<and>
      delivered f
        = map (\<lambda>i. (i, awaited_result e (output_folder p) (rows ! i))) [0..<current_index f] \<and>
      self f = (tally p (map snd (delivered f)))\<lparr>effects := effects (self f)\<rparr> \<and>
      spawned (effects (self f)) = spawned (effects p) @ [0..<next_index_to_prefetch f])"

text \<open>
  With it, what the bounds of the window add: the dictionary holds no more than the
  window allows, and the row the loop will ask for next, if there is one, has its task.
\<close>

definition window_inv :: "nat \<Rightarrow> env \<Rightarrow> row list \<Rightarrow> printer \<Rightarrow> frame \<Rightarrow> bool" where
  "window_inv max_prefetch e rows p f =
     (sched_inv e rows p f \<and> length (prefetched f) \<le> max_prefetch \<and>
      (current_index f < length rows \<longrightarrow> current_index f < next_index_to_prefetch f))"

section \<open>Properties\<close>

subsection \<open>The layer processor\<close>

lemma print_layer_async_eq: "print_layer_async = fetch_layer_supervised"
  by (intro ext)
     (auto simp: print_layer_async_def fetch_layer_supervised_def Let_def
           split: option.splits sum.splits)

lemmas sample_simps =
  sample_env_def sample_printer_def sample_rows_def jam_row_def twin_a_def twin_b_def
  down_row_def nine_row_def blocked_env_def locked_printer_def bare_row_def slash_row_def

lemmas path_simps =
  layer_number_of_def layer_folder_of_def layer_data_file_of_def image_path_of_def
  image_url_of_def series_get_def path_join_def string_of_int_def string_of_nat.simps

lemmas text_simps =
  is_quit_def is_end_def py_lower_def py_strip_def lower_char_def is_space_def ustr_def

text \<open>
  Claim C2, as stated, fails on four inputs.

  \<^item> In the supervised mode of \<^verbatim>\<open>normal_driver.py\<close> a row whose \<^verbatim>\<open>Error\<close> column is set,
    whose image can be fetched and whose error the user chooses to ignore is counted as a
    success, with nothing logged: \<^verbatim>\<open>print_layer\<close> never reads the column.
  \<^item> When the folder of the layer cannot be created, \<^verbatim>\<open>fetch_layer_supervised\<close> yields no
    outcome at all: \<^verbatim>\<open>os.makedirs\<close> stands before the first \<^verbatim>\<open>try\<close>, the task raises, and
    the automatic mode of \<^verbatim>\<open>smart_driver.py\<close> ends there with no counter changed.
  \<^item> When the image was fetched but cannot be saved, \<^verbatim>\<open>fetch_layer_supervised\<close> reports a
    download error, although the fetch succeeded and the row carries an inherent error.
  \<^item> On the same row \<^verbatim>\<open>print_layer\<close> of \<^verbatim>\<open>normal_driver.py\<close> yields no outcome: it only
    catches \<^verbatim>\<open>requests.RequestException\<close>, and the error of the file system leaves it.
\<close>

theorem layer_processor_precedence_fails:
  "has_error jam_row \<and>
   \<not> isl (http_get sample_env (image_url_of jam_row)) \<and>
   fst (normal_supervised_mode sample_env (sample_printer ''supervised'' [jam_row])
          [ustr '''', ustr ''i'']) = Exhausted \<and>
   successful_layers (fst (snd (normal_supervised_mode sample_env
          (sample_printer ''supervised'' [jam_row]) [ustr '''', ustr ''i'']))) = 1 \<and>
   failed_layers (fst (snd (normal_supervised_mode sample_env
          (sample_printer ''supervised'' [jam_row]) [ustr '''', ustr ''i'']))) = 0 \<and>
   error_log (fst (snd (normal_supervised_mode sample_env
          (sample_printer ''supervised'' [jam_row]) [ustr '''', ustr ''i'']))) = [] \<and>
   fetch_layer_supervised blocked_env ''out'' jam_row = (Inl (OSError ''File exists''), []) \<and>
   smart_automatic_mode_async blocked_env (sample_printer ''automatic'' [jam_row]) []
     = (Raised (OSError ''File exists''),
        (sample_printer ''automatic'' [jam_row])\<lparr>effects := [MkDir ''out'', Spawn 0]\<rparr>) \<and>
   has_error nine_row \<and>
   \<not> isl (http_get sample_env (image_url_of nine_row)) \<and>
   fst (fetch_layer_supervised sample_env ''out'' nine_row)
     = Inr (Num 9, False, Some ''Error downloading image: Permission denied'') \<and>
   normal_print_layer sample_env (sample_printer ''supervised'' [nine_row]) nine_row
     = (Some (OSError ''Permission denied''),
        (sample_printer ''supervised'' [nine_row])
          \<lparr>effects := [MkDir ''out'', MkDir ''out/layer_9'',
                       Write ''out/layer_9/layer_data.txt'' (Json nine_row),
                       Get (Str ''http://printer/i.png'')]\<rparr>)"
proof -
  have a: "has_error jam_row \<and>
     \<not> isl (http_get sample_env (image_url_of jam_row)) \<and>
     fst (normal_supervised_mode sample_env (sample_printer ''supervised'' [jam_row])
            [ustr '''', ustr ''i'']) = Exhausted \<and>
     successful_layers (fst (snd (normal_supervised_mode sample_env
            (sample_printer ''supervised'' [jam_row]) [ustr '''', ustr ''i'']))) = 1 \<and>
     failed_layers (fst (snd (normal_supervised_mode sample_env
            (sample_printer ''supervised'' [jam_row]) [ustr '''', ustr ''i'']))) = 0 \<and>
     error_log (fst (snd (normal_supervised_mode sample_env
            (sample_printer ''supervised'' [jam_row]) [ustr '''', ustr ''i'']))) = []"
    by (simp add: sample_simps path_simps text_simps has_error_def normal_supervised_mode_def
          supervised_mode_def normal_print_layer_def layer_succeeded_def layer_failed_def Let_def)
  have b: "fetch_layer_supervised blocked_env ''out'' jam_row = (Inl (OSError ''File exists''), [])"
    by (simp add: sample_simps path_simps fetch_layer_supervised_def Let_def)
  have order: "completion_order [] (Suc 0) = [0]"
    by (simp add: completion_order_def)
  have c: "smart_automatic_mode_async blocked_env (sample_printer ''automatic'' [jam_row]) []
     = (Raised (OSError ''File exists''),
        (sample_printer ''automatic'' [jam_row])\<lparr>effects := [MkDir ''out'', Spawn 0]\<rparr>)"
    using b
    by (simp add: smart_automatic_mode_async_def automatic_mode_async_def gather_def order
          sample_printer_def Let_def)
  have d: "has_error nine_row \<and>
     \<not> isl (http_get sample_env (image_url_of nine_row)) \<and>
     fst (fetch_layer_supervised sample_env ''out'' nine_row)
       = Inr (Num 9, False, Some ''Error downloading image: Permission denied'')"
    by (simp add: sample_simps path_simps has_error_def fetch_layer_supervised_def Let_def)
  have e: "normal_print_layer sample_env (sample_printer ''supervised'' [nine_row]) nine_row
     = (Some (OSError ''Permission denied''),
        (sample_printer ''supervised'' [nine_row])
          \<lparr>effects := [MkDir ''out'', MkDir ''out/layer_9'',
                       Write ''out/layer_9/layer_data.txt'' (Json nine_row),
                       Get (Str ''http://printer/i.png'')]\<rparr>)"
    by (simp add: sample_simps path_simps normal_print_layer_def Let_def)
  from a b c d e show ?thesis
    by (intro conjI) simp_all
qed

text \<open>
  Claim C2, amended. Once the folder of the layer exists, the precedence holds in this
  form, for every row and every object.

  \<^item> A failure to write the data file yields the write-error outcome in every layer
    processor, asynchronous (\<^verbatim>\<open>fetch_layer_supervised\<close> of \<^verbatim>\<open>smart_driver.py\<close>,
    \<^verbatim>\<open>print_layer_async\<close> of \<^verbatim>\<open>multi_driver.py\<close>) and sequential (\<^verbatim>\<open>print_layer\<close> of
    \<^verbatim>\<open>normal_driver.py\<close> and of \<^verbatim>\<open>multi_driver.py\<close>), and nothing else is done: no request,
    no further file.
  \<^item> When the data file was written and the request for the image fails, every layer
    processor yields the fetch-error outcome, whether or not the row carries an inherent
    error.
  \<^item> When the image was fetched and cannot be saved, the asynchronous processor and
    \<^verbatim>\<open>print_layer\<close> of \<^verbatim>\<open>multi_driver.py\<close> yield the same kind of outcome as for a failed
    fetch, with the message of the file system.
  \<^item> When the data file and the image, if the row has one, were written, the asynchronous
    processor yields success = False with a message that ends in the text of the
    \<^verbatim>\<open>Error\<close> cell if that cell is not \<^verbatim>\<open>SUCCESS\<close>, and success otherwise; the sequential
    \<^verbatim>\<open>print_layer\<close> counts the row as a success either way.
\<close>

theorem layer_processor_precedence:
  assumes "makedirs_error e (layer_folder_of (output_folder p) layer) = None"
  shows
   "(\<forall>msg. open_error e (layer_data_file_of (output_folder p) layer) = Some msg \<longrightarrow>
       fetch_layer_supervised e (output_folder p) layer =
         (Inr (layer_number_of layer, False, Some (''Error writing layer data: '' @ msg)),
          [MkDir (layer_folder_of (output_folder p) layer)]) \<and>
       normal_print_layer e p layer =
         (None,
          layer_failed p
            (''Layer '' @ py_str (layer_number_of layer) @ '': Error writing data: '' @ msg)
            [MkDir (layer_folder_of (output_folder p) layer)]) \<and>
       multi_print_layer e p layer = normal_print_layer e p layer) \<and>
    (\<forall>msg. open_error e (layer_data_file_of (output_folder p) layer) = None \<and>
           truthy (image_url_of layer) \<and> http_get e (image_url_of layer) = Inl msg \<longrightarrow>
       fetch_layer_supervised e (output_folder p) layer =
         (Inr (layer_number_of layer, False, Some (''Error downloading image: '' @ msg)),
          [MkDir (layer_folder_of (output_folder p) layer),
           Write (layer_data_file_of (output_folder p) layer) (Json layer),
           Get (image_url_of layer)]) \<and>
       normal_print_layer e p layer =
         (None,
          layer_failed p (''Layer '' @ py_str (layer_number_of layer) @ '': '' @ msg)
            [MkDir (layer_folder_of (output_folder p) layer),
             Write (layer_data_file_of (output_folder p) layer) (Json layer),
             Get (image_url_of layer)]) \<and>
       multi_print_layer e p layer = normal_print_layer e p layer) \<and>
    (\<forall>msg. open_error e (layer_data_file_of (output_folder p) layer) = None \<and>
           truthy (image_url_of layer) \<and> \<not> isl (http_get e (image_url_of layer)) \<and>
           open_error e (image_path_of (output_folder p) layer) = Some msg \<longrightarrow>
       fetch_layer_supervised e (output_folder p) layer =
         (Inr (layer_number_of layer, False, Some (''Error downloading image: '' @ msg)),
          [MkDir (layer_folder_of (output_folder p) layer),
           Write (layer_data_file_of (output_folder p) layer) (Json layer),
           Get (image_url_of layer)]) \<and>
       multi_print_layer e p layer =
         (None,
          layer_failed p (''Layer '' @ py_str (layer_number_of layer) @ '': '' @ msg)
            [MkDir (layer_folder_of (output_folder p) layer),
             Write (layer_data_file_of (output_folder p) layer) (Json layer),
             Get (image_url_of layer)])) \<and>
    (io_ok e (output_folder p) layer \<and> has_error layer \<longrightarrow>
       fst (fetch_layer_supervised e (output_folder p) layer) =
         Inr (layer_number_of layer, False,
              Some (''Inherent CSV error: ''
                      @ py_str (series_get layer ''Error'' (Str ''SUCCESS''))))) \<and>
    (io_ok e (output_folder p) layer \<and> \<not> has_error layer \<longrightarrow>
       fst (fetch_layer_supervised e (output_folder p) layer)
         = Inr (layer_number_of layer, True, None)) \<and>
    (io_ok e (output_folder p) layer \<longrightarrow>
       fst (normal_print_layer e p layer) = None \<and>
       successful_layers (snd (normal_print_layer e p layer)) = successful_layers p + 1 \<and>
       failed_layers (snd (normal_print_layer e p layer)) = failed_layers p \<and>
       error_log (snd (normal_print_layer e p layer)) = error_log p \<and>
       multi_print_layer e p layer = normal_print_layer e p layer) \<and>
    print_layer_async e (output_folder p) layer
      = fetch_layer_supervised e (output_folder p) layer"
proof -
  note defs = fetch_layer_supervised_def normal_print_layer_def multi_print_layer_def Let_def
  have write_error:
    "\<forall>msg. open_error e (layer_data_file_of (output_folder p) layer) = Some msg \<longrightarrow>
       fetch_layer_supervised e (output_folder p) layer =
         (Inr (layer_number_of layer, False, Some (''Error writing layer data: '' @ msg)),
          [MkDir (layer_folder_of (output_folder p) layer)]) \<and>
       normal_print_layer e p layer =
         (None,
          layer_failed p
            (''Layer '' @ py_str (layer_number_of layer) @ '': Error writing data: '' @ msg)
            [MkDir (layer_folder_of (output_folder p) layer)]) \<and>
       multi_print_layer e p layer = normal_print_layer e p layer"
    using assms by (simp add: defs)
  have fetch_error:
    "\<forall>msg. open_error e (layer_data_file_of (output_folder p) layer) = None \<and>
           truthy (image_url_of layer) \<and> http_get e (image_url_of layer) = Inl msg \<longrightarrow>
       fetch_layer_supervised e (output_folder p) layer =
         (Inr (layer_number_of layer, False, Some (''Error downloading image: '' @ msg)),
          [MkDir (layer_folder_of (output_folder p) layer),
           Write (layer_data_file_of (output_folder p) layer) (Json layer),
           Get (image_url_of layer)]) \<and>
       normal_print_layer e p layer =
         (None,
          layer_failed p (''Layer '' @ py_str (layer_number_of layer) @ '': '' @ msg)
            [MkDir (layer_folder_of (output_folder p) layer),
             Write (layer_data_file_of (output_folder p) layer) (Json layer),
             Get (image_url_of layer)]) \<and>
       multi_print_layer e p layer = normal_print_layer e p layer"
    using assms by (simp add: defs)
  have save_error:
    "\<forall>msg. open_error e (layer_data_file_of (output_folder p) layer) = None \<and>
           truthy (image_url_of layer) \<and> \<not> isl (http_get e (image_url_of layer)) \<and>
           open_error e (image_path_of (output_folder p) layer) = Some msg \<longrightarrow>
       fetch_layer_supervised e (output_folder p) layer =
         (Inr (layer_number_of layer, False, Some (''Error downloading image: '' @ msg)),
          [MkDir (layer_folder_of (output_folder p) layer),
           Write (layer_data_file_of (output_folder p) layer) (Json layer),
           Get (image_url_of layer)]) \<and>
       multi_print_layer e p layer =
         (None,
          layer_failed p (''Layer '' @ py_str (layer_number_of layer) @ '': '' @ msg)
            [MkDir (layer_folder_of (output_folder p) layer),
             Write (layer_data_file_of (output_folder p) layer) (Json layer),
             Get (image_url_of layer)])"
    using assms by (auto simp: defs split: sum.splits)
  have inherent:
    "io_ok e (output_folder p) layer \<and> has_error layer \<longrightarrow>
       fst (fetch_layer_supervised e (output_folder p) layer) =
         Inr (layer_number_of layer, False,
              Some (''Inherent CSV error: ''
                      @ py_str (series_get layer ''Error'' (Str ''SUCCESS''))))"
    using assms
    by (auto simp: fetch_layer_supervised_def io_ok_def has_error_def Let_def split: sum.splits)
  have success:
    "io_ok e (output_folder p) layer \<and> \<not> has_error layer \<longrightarrow>
       fst (fetch_layer_supervised e (output_folder p) layer)
         = Inr (layer_number_of layer, True, None)"
    using assms
    by (auto simp: fetch_layer_supervised_def io_ok_def has_error_def Let_def split: sum.splits)
  have sequential:
    "io_ok e (output_folder p) layer \<longrightarrow>
       fst (normal_print_layer e p layer) = None \<and>
       successful_layers (snd (normal_print_layer e p layer)) = successful_layers p + 1 \<and>
       failed_layers (snd (normal_print_layer e p layer)) = failed_layers p \<and>
       error_log (snd (normal_print_layer e p layer)) = error_log p \<and>
       multi_print_layer e p layer = normal_print_layer e p layer"
    using assms
    by (auto simp: normal_print_layer_def multi_print_layer_def io_ok_def layer_succeeded_def
          Let_def split: sum.splits)
  have same: "print_layer_async e (output_folder p) layer
      = fetch_layer_supervised e (output_folder p) layer"
    by (simp add: print_layer_async_eq)
  from write_error fetch_error save_error inherent success sequential same
  show ?thesis
    by (intro conjI)
qed

theorem layer_processor_precedence_witness:
  "makedirs_error sample_env (layer_folder_of ''/locked'' twin_b) = None \<and>
   makedirs_error sample_env (layer_folder_of ''out'' jam_row) = None \<and>
   fetch_layer_supervised sample_env ''/locked'' twin_b =
     (Inr (Num 7, False, Some ''Error writing layer data: Permission denied''),
      [MkDir ''/locked/layer_7'']) \<and>
   error_log (snd (normal_print_layer sample_env (locked_printer [twin_b]) twin_b))
     = [''Layer 7: Error writing data: Permission denied''] \<and>
   fst (fetch_layer_supervised sample_env ''out'' down_row) =
     Inr (Num 4, False, Some ''Error downloading image: timed out'') \<and>
   error_log (snd (multi_print_layer sample_env (sample_printer ''supervised'' [down_row])
                     down_row))
     = [''Layer 4: timed out''] \<and>
   fst (fetch_layer_supervised sample_env ''out'' nine_row) =
     Inr (Num 9, False, Some ''Error downloading image: Permission denied'') \<and>
   error_log (snd (multi_print_layer sample_env (sample_printer ''supervised'' [nine_row])
                     nine_row))
     = [''Layer 9: Permission denied''] \<and>
   fst (fetch_layer_supervised sample_env ''out'' jam_row) =
     Inr (Num 3, False, Some ''Inherent CSV error: Nozzle Jam'') \<and>
   successful_layers (snd (multi_print_layer sample_env (sample_printer ''supervised'' [jam_row])
                             jam_row)) = 1 \<and>
   fst (fetch_layer_supervised sample_env ''out'' twin_a) = Inr (Num 7, True, None)"
  using layer_processor_precedence [of sample_env "locked_printer [twin_b]" twin_b]
    layer_processor_precedence [of sample_env "sample_printer ''supervised'' [down_row]" down_row]
    layer_processor_precedence [of sample_env "sample_printer ''supervised'' [nine_row]" nine_row]
    layer_processor_precedence [of sample_env "sample_printer ''supervised'' [jam_row]" jam_row]
    layer_processor_precedence [of sample_env "sample_printer ''supervised'' [twin_a]" twin_a]
  by (simp add: sample_simps path_simps io_ok_def has_error_def layer_failed_def)

text \<open>
  Claim C6, as stated, fails in the automatic mode of \<^verbatim>\<open>normal_driver.py\<close>: a row whose
  \<^verbatim>\<open>Error\<close> column is set is logged as failed, with the column's text, before any input
  or output; its data file is never written.
\<close>

theorem sequential_automatic_logs_flagged_row_without_io:
  "has_error jam_row \<and>
   fst (automatic_mode sample_env (sample_printer ''automatic'' [jam_row])) = Exhausted \<and>
   failed_layers (snd (automatic_mode sample_env (sample_printer ''automatic'' [jam_row]))) = 1 \<and>
   error_log (snd (automatic_mode sample_env (sample_printer ''automatic'' [jam_row])))
     = [''Layer 3: Nozzle Jam''] \<and>
   effects (snd (automatic_mode sample_env (sample_printer ''automatic'' [jam_row])))
     = [MkDir ''out'']"
  by (simp add: sample_simps path_simps has_error_def automatic_mode_def layer_failed_def)

text \<open>
  Claim C6, amended: in the asynchronous layer processor (\<^verbatim>\<open>fetch_layer_supervised\<close>, and
  \<^verbatim>\<open>print_layer_async\<close>, which computes the same), if the outcome of a row is the
  inherent-error tuple then the row's data file was written, and, when the row has an
  image locator, the request succeeded and the image was written; the message ends in the
  text of the row's \<^verbatim>\<open>Error\<close> cell.
\<close>

theorem inherent_error_only_after_io:
  assumes "fst (fetch_layer_supervised e folder layer)
             = Inr (n, False, Some (''Inherent CSV error: '' @ v))"
  shows "v = py_str (series_get layer ''Error'' (Str ''SUCCESS'')) \<and> has_error layer \<and>
     io_ok e folder layer \<and>
     Write (layer_data_file_of folder layer) (Json layer)
       \<in> set (snd (fetch_layer_supervised e folder layer)) \<and>
     (truthy (image_url_of layer) \<longrightarrow>
        (\<exists>content. http_get e (image_url_of layer) = Inr content \<and>
           Get (image_url_of layer) \<in> set (snd (fetch_layer_supervised e folder layer)) \<and>
           Write (image_path_of folder layer) (Image content)
             \<in> set (snd (fetch_layer_supervised e folder layer)))) \<and>
     print_layer_async e folder layer = fetch_layer_supervised e folder layer"
  using assms
  by (auto simp: fetch_layer_supervised_def print_layer_async_eq Let_def has_error_def io_ok_def
           split: option.splits sum.splits if_splits)

theorem inherent_error_only_after_io_witness:
  "fst (fetch_layer_supervised sample_env ''out'' jam_row)
     = Inr (Num 3, False, Some (''Inherent CSV error: '' @ ''Nozzle Jam'')) \<and>
   truthy (image_url_of jam_row) \<and>
   Write ''out/layer_3/layer_data.txt'' (Json jam_row)
     \<in> set (snd (fetch_layer_supervised sample_env ''out'' jam_row)) \<and>
   Write ''out/layer_3/layer_3.png'' (Image ''PNG'')
     \<in> set (snd (fetch_layer_supervised sample_env ''out'' jam_row))"
proof -
  have h: "fst (fetch_layer_supervised sample_env ''out'' jam_row)
             = Inr (Num 3, False, Some (''Inherent CSV error: '' @ ''Nozzle Jam''))"
    by (simp add: sample_simps path_simps fetch_layer_supervised_def Let_def)
  have t: "truthy (image_url_of jam_row)"
    by (simp add: sample_simps path_simps)
  have g: "http_get sample_env (image_url_of jam_row) = Inr ''PNG''"
    by (simp add: sample_simps path_simps)
  have d: "layer_data_file_of ''out'' jam_row = ''out/layer_3/layer_data.txt''"
    by (simp add: sample_simps path_simps)
  have i: "image_path_of ''out'' jam_row = ''out/layer_3/layer_3.png''"
    by (simp add: sample_simps path_simps)
  from inherent_error_only_after_io [OF h] t g d i show ?thesis using h by simp
qed

subsection \<open>Artifact paths\<close>








lemma written_paths_append [simp]:
  "written_paths (a @ b) = written_paths a @ written_paths b"
  by (simp add: written_paths_def)







subsection \<open>The empty table\<close>

text \<open>
  Claim C9: in the supervised mode with prefetching, on a table of no rows, the scheduler
  reports exhaustion at once. No line is read from the user and no completion is waited
  for (the events come back as they were given), the dictionary stays empty and the
  object, with its trace of effects, is as before: no task was started. This holds for
  every window and first fill, so for the 10 and 6 of \<^verbatim>\<open>supervised_mode_async\<close>.
\<close>

theorem empty_table_exhausts_at_once:
  assumes "total_layers p = 0"
  shows "prefetch_scheduler max_prefetch initial_prefetch e p evs
           = (Exhausted,
              \<lparr>prefetched = [], next_index_to_prefetch = 0, current_index = 0,
               delivered = [], self = p\<rparr>,
              evs) \<and>
         supervised_mode_async e p evs
           = (Exhausted,
              \<lparr>prefetched = [], next_index_to_prefetch = 0, current_index = 0,
               delivered = [], self = p\<rparr>,
              evs)"
  using assms
  by (simp add: supervised_mode_async_def prefetch_scheduler_def prefetch_loop.simps
        consumer_loop.simps)

theorem empty_table_exhausts_at_once_witness:
  "total_layers (sample_printer ''supervised'' []) = 0 \<and>
   fst (supervised_mode_async sample_env (sample_printer ''supervised'' [])
          [Input (ustr ''''), Complete 0]) = Exhausted \<and>
   snd (snd (supervised_mode_async sample_env (sample_printer ''supervised'' [])
          [Input (ustr ''''), Complete 0])) = [Input (ustr ''''), Complete 0] \<and>
   spawned (effects (self (fst (snd (supervised_mode_async sample_env
          (sample_printer ''supervised'' []) [Input (ustr ''''), Complete 0]))))) = []"
  using empty_table_exhausts_at_once
    [where p = "sample_printer ''supervised'' []" and e = sample_env
       and evs = "[Input (ustr ''''), Complete 0]"]
  by (simp add: sample_printer_def spawned_def)

subsection \<open>The choice of the mode\<close>

text \<open>
  Claim C8: when the mode of the object is neither \<^verbatim>\<open>supervised\<close> nor \<^verbatim>\<open>automatic\<close>,
  \<^verbatim>\<open>run\<close> ends in \<^verbatim>\<open>sys.exit(1)\<close> in each of the three drivers, whatever the table file
  holds: nothing is added to the trace of effects (no folder of a layer, no data file, no
  image, no request, no task, no summary file, no chart), no counter and no entry of the
  error log changes, and no line of the user is read. The mode of an object is the
  lowercase form of the mode given to the constructor, and a constructed object has done
  nothing but create its output folder.
\<close>

theorem invalid_mode_exits_before_processing:
  "(mode p \<noteq> ustr ''supervised'' \<and> mode p \<noteq> ustr ''automatic'' \<longrightarrow>
      fst (normal_run e p csv_file ins) = Some (SystemExit 1) \<and>
      effects (fst (snd (normal_run e p csv_file ins))) = effects p \<and>
      successful_layers (fst (snd (normal_run e p csv_file ins))) = successful_layers p \<and>
      failed_layers (fst (snd (normal_run e p csv_file ins))) = failed_layers p \<and>
      error_log (fst (snd (normal_run e p csv_file ins))) = error_log p \<and>
      snd (snd (normal_run e p csv_file ins)) = ins \<and>
      fst (multi_run e p csv_file ins sched) = Some (SystemExit 1) \<and>
      effects (fst (snd (multi_run e p csv_file ins sched))) = effects p \<and>
      successful_layers (fst (snd (multi_run e p csv_file ins sched))) = successful_layers p \<and>
      failed_layers (fst (snd (multi_run e p csv_file ins sched))) = failed_layers p \<and>
      error_log (fst (snd (multi_run e p csv_file ins sched))) = error_log p \<and>
      snd (snd (multi_run e p csv_file ins sched)) = ins \<and>
      fst (smart_run e p csv_file evs) = Some (SystemExit 1) \<and>
      effects (fst (snd (smart_run e p csv_file evs))) = effects p \<and>
      successful_layers (fst (snd (smart_run e p csv_file evs))) = successful_layers p \<and>
      failed_layers (fst (snd (smart_run e p csv_file evs))) = failed_layers p \<and>
      error_log (fst (snd (smart_run e p csv_file evs))) = error_log p \<and>
      snd (snd (smart_run e p csv_file evs)) = evs) \<and>
   (FakePrinter_init e name folder m = Inr p \<longrightarrow>
      mode p = py_lower m \<and> untouched folder p)"
  by (auto simp: normal_run_def multi_run_def smart_run_def load_csv_data_def
        FakePrinter_init_def untouched_def
        split: sum.splits option.splits)

theorem invalid_mode_exits_before_processing_witness:
  "FakePrinter_init sample_env ''job'' ''out'' (ustr ''Manual'')
     = Inr ((sample_printer ''manual'' [])\<lparr>csv_data := None\<rparr>) \<and>
   mode ((sample_printer ''manual'' [])\<lparr>csv_data := None\<rparr>) \<noteq> ustr ''supervised'' \<and>
   mode ((sample_printer ''manual'' [])\<lparr>csv_data := None\<rparr>) \<noteq> ustr ''automatic'' \<and>
   read_csv sample_env ''jobs.csv'' = Inr sample_rows \<and>
   fst (smart_run sample_env ((sample_printer ''manual'' [])\<lparr>csv_data := None\<rparr>)
          ''jobs.csv'' [Input (ustr '''')]) = Some (SystemExit 1) \<and>
   effects (fst (snd (smart_run sample_env ((sample_printer ''manual'' [])\<lparr>csv_data := None\<rparr>)
          ''jobs.csv'' [Input (ustr '''')]))) = [MkDir ''out''] \<and>
   snd (snd (normal_run sample_env ((sample_printer ''manual'' [])\<lparr>csv_data := None\<rparr>)
          ''jobs.csv'' [ustr ''''])) = [ustr '''']"
proof -
  have init: "FakePrinter_init sample_env ''job'' ''out'' (ustr ''Manual'')
     = Inr ((sample_printer ''manual'' [])\<lparr>csv_data := None\<rparr>)"
    by (simp add: FakePrinter_init_def sample_env_def sample_printer_def text_simps)
  have m1: "mode ((sample_printer ''manual'' [])\<lparr>csv_data := None\<rparr>) \<noteq> ustr ''supervised''"
    by (simp add: sample_printer_def ustr_def)
  have m2: "mode ((sample_printer ''manual'' [])\<lparr>csv_data := None\<rparr>) \<noteq> ustr ''automatic''"
    by (simp add: sample_printer_def ustr_def)
  have csv: "read_csv sample_env ''jobs.csv'' = Inr sample_rows"
    by (simp add: sample_env_def)
  have eff: "effects ((sample_printer ''manual'' [])\<lparr>csv_data := None\<rparr>) = [MkDir ''out'']"
    by (simp add: sample_printer_def)
  from invalid_mode_exits_before_processing
    [of "(sample_printer ''manual'' [])\<lparr>csv_data := None\<rparr>" sample_env "''jobs.csv''"
        "[ustr '''']" "[]" "[Input (ustr '''')]" "''job''" "''out''" "ustr ''Manual''"]
  show ?thesis
    using init m1 m2 csv eff by simp
qed

subsection \<open>The prefetch window\<close>

lemma update_fresh:
  "k \<notin> fst ` set al \<Longrightarrow> AList.update k v al = al @ [(k, v)]"
  by (induction al) auto

lemma set_update_subset:
  "set (AList.update k v al) \<subseteq> insert (k, v) (set al)"
  by (induction al) auto

lemma set_delete_subset:
  "set (AList.delete k al) \<subseteq> set al"
  by (induction al) auto

lemma removeAll_upt_first:
  "c < n \<Longrightarrow> removeAll c [c..<n] = [Suc c..<n]"
  by (simp add: upt_conv_Cons)

lemma spawned_append [simp]:
  "spawned (a @ b) = spawned a @ spawned b"
  by (simp add: spawned_def)

lemma spawned_fetch [simp]:
  "spawned (snd (fetch_layer_supervised e folder layer)) = []"
  by (auto simp: fetch_layer_supervised_def spawned_def Let_def split: option.splits sum.splits)

lemma fold_result_fields [simp]:
  "csv_data (fold_result r p) = csv_data p"
  "total_layers (fold_result r p) = total_layers p"
  "output_folder (fold_result r p) = output_folder p"
  "effects (fold_result r p) = effects p"
  by (auto simp: fold_result_def split: prod.splits)

lemma fold_result_effects:
  "fold_result r (p\<lparr>effects := effs\<rparr>) = (fold_result r p)\<lparr>effects := effs\<rparr>"
  by (auto simp: fold_result_def split: prod.splits)

lemma tally_snoc:
  "tally p (rs @ [r]) = fold_result r (tally p rs)"
  by (simp add: tally_def)

lemma tally_fields [simp]:
  "csv_data (tally p rs) = csv_data p"
  "total_layers (tally p rs) = total_layers p"
  "output_folder (tally p rs) = output_folder p"
  "effects (tally p rs) = effects p"
  by (induction rs rule: rev_induct) (simp_all add: tally_snoc, simp_all add: tally_def)


lemma sched_invI:
  assumes "csv_data (self f) = Some rows" and "total_layers (self f) = length rows"
    and "output_folder (self f) = output_folder p"
    and "current_index f \<le> next_index_to_prefetch f"
    and "next_index_to_prefetch f \<le> length rows"
    and "map fst (prefetched f) = [current_index f..<next_index_to_prefetch f]"
    and "\<forall>(i, t) \<in> set (prefetched f). task_ok e (output_folder p) (rows ! i) t"
    and "delivered f
           = map (\<lambda>i. (i, awaited_result e (output_folder p) (rows ! i))) [0..<current_index f]"
    and "self f = (tally p (map snd (delivered f)))\<lparr>effects := effects (self f)\<rparr>"
    and "spawned (effects (self f)) = spawned (effects p) @ [0..<next_index_to_prefetch f]"
  shows "sched_inv e rows p f"
  using assms unfolding sched_inv_def by (intro conjI)

lemma sched_invD:
  assumes "sched_inv e rows p f"
  shows "csv_data (self f) = Some rows" and "total_layers (self f) = length rows"
    and "output_folder (self f) = output_folder p"
    and "current_index f \<le> next_index_to_prefetch f"
    and "next_index_to_prefetch f \<le> length rows"
    and "map fst (prefetched f) = [current_index f..<next_index_to_prefetch f]"
    and "\<forall>(i, t) \<in> set (prefetched f). task_ok e (output_folder p) (rows ! i) t"
    and "delivered f
           = map (\<lambda>i. (i, awaited_result e (output_folder p) (rows ! i))) [0..<current_index f]"
    and "self f = (tally p (map snd (delivered f)))\<lparr>effects := effects (self f)\<rparr>"
    and "spawned (effects (self f)) = spawned (effects p) @ [0..<next_index_to_prefetch f]"
  using assms unfolding sched_inv_def by blast+

lemma self_effects_update:
  "q = r\<lparr>effects := effects q\<rparr> \<Longrightarrow> q\<lparr>effects := effs\<rparr> = r\<lparr>effects := effs\<rparr>"
  by (cases q, cases r) simp

text \<open>Starting the task of the next row keeps the invariant.\<close>

lemma sched_inv_spawn:
  assumes inv: "sched_inv e rows p f"
    and more: "next_index_to_prefetch f < length rows"
  shows "sched_inv e rows p
           (add_effects [Spawn (next_index_to_prefetch f)]
              (f\<lparr>prefetched := AList.update (next_index_to_prefetch f)
                                 (Pending (rows ! next_index_to_prefetch f)) (prefetched f),
                 next_index_to_prefetch := next_index_to_prefetch f + 1\<rparr>))"
    (is "sched_inv e rows p ?g")
proof -
  let ?n = "next_index_to_prefetch f"
  note d = sched_invD [OF inv]
  have "?n \<notin> set (map fst (prefetched f))"
    by (simp add: d(6))
  then have fresh: "?n \<notin> fst ` set (prefetched f)"
    by simp
  have upd: "AList.update ?n (Pending (rows ! ?n)) (prefetched f)
               = prefetched f @ [(?n, Pending (rows ! ?n))]"
    by (rule update_fresh [OF fresh])
  show ?thesis
  proof (rule sched_invI)
    show "csv_data (self ?g) = Some rows"
      using d(1) by (simp add: add_effects_def)
    show "total_layers (self ?g) = length rows"
      using d(2) by (simp add: add_effects_def)
    show "output_folder (self ?g) = output_folder p"
      using d(3) by (simp add: add_effects_def)
    show "current_index ?g \<le> next_index_to_prefetch ?g"
      using d(4) by (simp add: add_effects_def)
    show "next_index_to_prefetch ?g \<le> length rows"
      using more by (simp add: add_effects_def)
    show "map fst (prefetched ?g) = [current_index ?g..<next_index_to_prefetch ?g]"
      using d(4) by (simp add: add_effects_def upd d(6))
    show "\<forall>(i, t) \<in> set (prefetched ?g). task_ok e (output_folder p) (rows ! i) t"
      using d(7) by (auto simp: add_effects_def upd task_ok_def)
    show "delivered ?g = map (\<lambda>i. (i, awaited_result e (output_folder p) (rows ! i)))
                           [0..<current_index ?g]"
      using d(8) by (simp add: add_effects_def)
    show "self ?g = (tally p (map snd (delivered ?g)))\<lparr>effects := effects (self ?g)\<rparr>"
      using self_effects_update [OF d(9)] by (simp add: add_effects_def)
    show "spawned (effects (self ?g)) = spawned (effects p) @ [0..<next_index_to_prefetch ?g]"
      by (simp add: add_effects_def d(10)) (simp add: spawned_def)
  qed
qed

lemma sched_inv_length:
  assumes "sched_inv e rows p f"
  shows "length (prefetched f) = next_index_to_prefetch f - current_index f"
proof -
  have "length (prefetched f) = length (map fst (prefetched f))"
    by simp
  also have "\<dots> = next_index_to_prefetch f - current_index f"
    by (simp only: sched_invD(6) [OF assms] length_upt)
  finally show ?thesis .
qed

text \<open>
  The loop that fills the dictionary never fails on a loaded table; it keeps the
  invariant, leaves the consumer's index alone and stops when the table is used up or
  the dictionary has reached the bound.
\<close>

lemma prefetch_loop_inv:
  "sched_inv e rows p f \<Longrightarrow>
   \<exists>f'. prefetch_loop limit f = (None, f') \<and> sched_inv e rows p f' \<and>
        current_index f' = current_index f \<and>
        next_index_to_prefetch f \<le> next_index_to_prefetch f' \<and>
        (next_index_to_prefetch f' = length rows \<or> limit \<le> length (prefetched f')) \<and>
        length (prefetched f') \<le> max limit (length (prefetched f))"
proof (induction limit f rule: prefetch_loop.induct)
  case (1 limit f)
  note inv = "1.prems"
  note d = sched_invD [OF inv]
  show ?case
  proof (cases "next_index_to_prefetch f < total_layers (self f) \<and> length (prefetched f) < limit")
    case False
    then have "prefetch_loop limit f = (None, f)"
      by (auto simp: prefetch_loop.simps [of limit f])
    moreover from False d(2) d(5)
    have "next_index_to_prefetch f = length rows \<or> limit \<le> length (prefetched f)"
      by auto
    ultimately show ?thesis
      using inv by auto
  next
    case True
    let ?n = "next_index_to_prefetch f"
    let ?g = "add_effects [Spawn ?n]
                (f\<lparr>prefetched := AList.update ?n (Pending (rows ! ?n)) (prefetched f),
                   next_index_to_prefetch := ?n + 1\<rparr>)"
    from True d(2) have more: "?n < length rows"
      by simp
    have layer: "iloc (self f) ?n = Inr (rows ! ?n)"
      using d(1) more by (simp add: iloc_def)
    have inv': "sched_inv e rows p ?g"
      by (rule sched_inv_spawn [OF inv more])
    from "1.IH" [OF True layer inv'] obtain f' where
      run: "prefetch_loop limit ?g = (None, f')" and inv'': "sched_inv e rows p f'"
      and cur: "current_index f' = current_index ?g"
      and nxt: "next_index_to_prefetch ?g \<le> next_index_to_prefetch f'"
      and full: "next_index_to_prefetch f' = length rows \<or> limit \<le> length (prefetched f')"
      and len: "length (prefetched f') \<le> max limit (length (prefetched ?g))"
      by blast
    have unfold: "prefetch_loop limit f = prefetch_loop limit ?g"
      using True layer by (simp add: prefetch_loop.simps [of limit f])
    have "length (prefetched ?g) = next_index_to_prefetch ?g - current_index ?g"
      by (rule sched_inv_length [OF inv'])
    also have "\<dots> = Suc (?n - current_index f)"
      using d(4) by (simp add: add_effects_def)
    also have "\<dots> = Suc (length (prefetched f))"
      by (simp add: sched_inv_length [OF inv])
    finally have "length (prefetched ?g) \<le> limit"
      using True by simp
    with len have len': "length (prefetched f') \<le> max limit (length (prefetched f))"
      by simp
    from cur have cur': "current_index f' = current_index f"
      by (simp add: add_effects_def)
    from nxt have nxt': "?n \<le> next_index_to_prefetch f'"
      by (simp add: add_effects_def)
    from run inv'' cur' nxt' full len' show ?thesis
      unfolding unfold by blast
  qed
qed

text \<open>A task that finishes keeps the invariant and moves no index.\<close>

lemma complete_task_inv:
  assumes inv: "sched_inv e rows p f"
  shows "sched_inv e rows p (complete_task e i f) \<and>
         current_index (complete_task e i f) = current_index f \<and>
         next_index_to_prefetch (complete_task e i f) = next_index_to_prefetch f \<and>
         length (prefetched (complete_task e i f)) = length (prefetched f)"
proof (cases "\<exists>layer. map_of (prefetched f) i = Some (Pending layer)")
  case False
  then have "complete_task e i f = f"
    by (auto simp: complete_task_def split: option.splits task.splits)
  with inv show ?thesis
    by simp
next
  case True
  then obtain layer where pending: "map_of (prefetched f) i = Some (Pending layer)"
    by blast
  note d = sched_invD [OF inv]
  from pending have member: "(i, Pending layer) \<in> set (prefetched f)"
    by (rule map_of_SomeD)
  with d(7) have "task_ok e (output_folder p) (rows ! i) (Pending layer)"
    by auto
  then have layer: "layer = rows ! i"
    by (simp add: task_ok_def)
  let ?r = "fst (fetch_layer_supervised e (output_folder p) (rows ! i))"
  let ?effs = "snd (fetch_layer_supervised e (output_folder p) (rows ! i))"
  let ?g = "add_effects ?effs (f\<lparr>prefetched := AList.update i (Finished ?r) (prefetched f)\<rparr>)"
  have step: "complete_task e i f = ?g"
    using pending by (simp add: complete_task_def layer d(3) split: prod.splits)
  from member have "i \<in> set (map fst (prefetched f))"
    by force
  then have keys: "map fst (AList.update i (Finished ?r) (prefetched f)) = map fst (prefetched f)"
    by (simp add: update_keys)
  have inv': "sched_inv e rows p ?g"
  proof (rule sched_invI)
    show "csv_data (self ?g) = Some rows"
      using d(1) by (simp add: add_effects_def)
    show "total_layers (self ?g) = length rows"
      using d(2) by (simp add: add_effects_def)
    show "output_folder (self ?g) = output_folder p"
      using d(3) by (simp add: add_effects_def)
    show "current_index ?g \<le> next_index_to_prefetch ?g"
      using d(4) by (simp add: add_effects_def)
    show "next_index_to_prefetch ?g \<le> length rows"
      using d(5) by (simp add: add_effects_def)
    show "map fst (prefetched ?g) = [current_index ?g..<next_index_to_prefetch ?g]"
      using d(6) by (simp add: add_effects_def keys)
    show "\<forall>(i, t) \<in> set (prefetched ?g). task_ok e (output_folder p) (rows ! i) t"
      using d(7) set_update_subset [of i "Finished ?r" "prefetched f"]
      by (auto simp: add_effects_def task_ok_def)
    show "delivered ?g = map (\<lambda>i. (i, awaited_result e (output_folder p) (rows ! i)))
                           [0..<current_index ?g]"
      using d(8) by (simp add: add_effects_def)
    show "self ?g = (tally p (map snd (delivered ?g)))\<lparr>effects := effects (self ?g)\<rparr>"
      using self_effects_update [OF d(9)] by (simp add: add_effects_def)
    show "spawned (effects (self ?g)) = spawned (effects p) @ [0..<next_index_to_prefetch ?g]"
      by (simp add: add_effects_def d(10))
  qed
  have "length (prefetched ?g) = length (map fst (prefetched ?g))"
    by simp
  also have "\<dots> = length (map fst (prefetched f))"
    by (simp add: add_effects_def keys del: length_map)
  finally have "length (prefetched ?g) = length (prefetched f)"
    by simp
  with inv' show ?thesis
    unfolding step by (simp add: add_effects_def)
qed

lemma fetch_raises_Exception:
  "fst (fetch_layer_supervised e folder layer) = Inl x \<Longrightarrow> is_Exception x"
  by (auto simp: fetch_layer_supervised_def Let_def split: option.splits sum.splits if_splits)

text \<open>
  One pass through the body of the loop, for a current index that has a task: the task of
  the current row is awaited, its result (or the tuple made from its exception) is unpacked
  and folded in, the index moves on by one and the dictionary is filled again.
\<close>

lemma consumer_body_inv:
  assumes inv: "sched_inv e rows p f"
    and here: "current_index f < next_index_to_prefetch f"
  shows "\<exists>f'. consumer_body max_prefetch e f = (None, f') \<and> sched_inv e rows p f' \<and>
           current_index f' = current_index f + 1 \<and>
           (next_index_to_prefetch f' = length rows \<or> max_prefetch \<le> length (prefetched f')) \<and>
           length (prefetched f') \<le> max max_prefetch (length (prefetched f) - 1)"
proof -
  let ?c = "current_index f"
  let ?r = "awaited_result e (output_folder p) (rows ! ?c)"
  let ?f1 = "complete_task e ?c f"
  let ?g = "(?f1\<lparr>self := fold_result ?r (self ?f1),
                   delivered := delivered ?f1 @ [(?c, ?r)],
                   prefetched := AList.delete ?c (prefetched ?f1)\<rparr>)\<lparr>current_index := ?c + 1\<rparr>"
  note d = sched_invD [OF inv]
  from complete_task_inv [OF inv, of ?c]
  have inv1: "sched_inv e rows p ?f1" and cur1: "current_index ?f1 = ?c"
    and nxt1: "next_index_to_prefetch ?f1 = next_index_to_prefetch f"
    and len1: "length (prefetched ?f1) = length (prefetched f)"
    by simp_all
  note d1 = sched_invD [OF inv1]
  from here d(5) have inside: "?c < length rows"
    by simp
  from here have "?c \<in> set (map fst (prefetched f))"
    by (simp add: d(6))
  then have "map_of (prefetched f) ?c \<noteq> None"
    by (simp add: map_of_eq_None_iff)
  then obtain t where t: "map_of (prefetched f) ?c = Some t"
    by blast
  then have "(?c, t) \<in> set (prefetched f)"
    by (rule map_of_SomeD)
  with d(7) have "task_ok e (output_folder p) (rows ! ?c) t"
    by auto
  then have awaited:
    "(case t of Finished r \<Rightarrow> r
      | Pending layer \<Rightarrow> fst (fetch_layer_supervised e (output_folder (self f)) layer))
       = fst (fetch_layer_supervised e (output_folder p) (rows ! ?c))"
    by (auto simp: task_ok_def d(3))
  have row: "iloc (self ?f1) ?c = Inr (rows ! ?c)"
    using d1(1) inside by (simp add: iloc_def)
  have body: "consumer_body max_prefetch e f = prefetch_loop max_prefetch ?g"
  proof (cases "fst (fetch_layer_supervised e (output_folder p) (rows ! ?c))")
    case (Inr r)
    then have "?r = r"
      by (simp add: awaited_result_def)
    with Inr show ?thesis
      by (simp add: consumer_body_def Let_def t awaited)
  next
    case (Inl x)
    then have "is_Exception x"
      by (rule fetch_raises_Exception)
    moreover from Inl
    have "?r = (layer_number_of (rows ! ?c), False, Some (''Error: '' @ exn_str x))"
      by (simp add: awaited_result_def)
    ultimately show ?thesis
      using Inl by (simp add: consumer_body_def Let_def t awaited row)
  qed
  have inv_g: "sched_inv e rows p ?g"
  proof (rule sched_invI)
    show "csv_data (self ?g) = Some rows"
      using d1(1) by simp
    show "total_layers (self ?g) = length rows"
      using d1(2) by simp
    show "output_folder (self ?g) = output_folder p"
      using d1(3) by simp
    show "current_index ?g \<le> next_index_to_prefetch ?g"
      using here by (simp add: nxt1)
    show "next_index_to_prefetch ?g \<le> length rows"
      using d1(5) by simp
    show "map fst (prefetched ?g) = [current_index ?g..<next_index_to_prefetch ?g]"
      using here by (simp add: delete_keys d1(6) cur1 nxt1 removeAll_upt_first)
    show "\<forall>(i, t) \<in> set (prefetched ?g). task_ok e (output_folder p) (rows ! i) t"
      using d1(7) set_delete_subset [of ?c "prefetched ?f1"] by auto
    show "delivered ?g = map (\<lambda>i. (i, awaited_result e (output_folder p) (rows ! i)))
                           [0..<current_index ?g]"
      by (simp add: d1(8) cur1)
    have "fold_result ?r (self ?f1)
            = fold_result ?r ((tally p (map snd (delivered ?f1)))\<lparr>effects := effects (self ?f1)\<rparr>)"
      using d1(9) by simp
    also have "\<dots> = (tally p (map snd (delivered ?f1) @ [?r]))\<lparr>effects := effects (self ?f1)\<rparr>"
      by (simp only: fold_result_effects tally_snoc)
    finally show "self ?g = (tally p (map snd (delivered ?g)))\<lparr>effects := effects (self ?g)\<rparr>"
      by simp
    show "spawned (effects (self ?g)) = spawned (effects p) @ [0..<next_index_to_prefetch ?g]"
      using d1(10) by simp
  qed
  have "length (prefetched ?g) = next_index_to_prefetch ?g - current_index ?g"
    by (rule sched_inv_length [OF inv_g])
  also have "\<dots> = (next_index_to_prefetch f - ?c) - 1"
    by (simp add: nxt1)
  also have "\<dots> = length (prefetched f) - 1"
    by (simp add: sched_inv_length [OF inv])
  finally have len_g: "length (prefetched ?g) = length (prefetched f) - 1" .
  from prefetch_loop_inv [OF inv_g, of max_prefetch] obtain f' where
    "prefetch_loop max_prefetch ?g = (None, f')" "sched_inv e rows p f'"
    "current_index f' = current_index ?g"
    "next_index_to_prefetch f' = length rows \<or> max_prefetch \<le> length (prefetched f')"
    "length (prefetched f') \<le> max max_prefetch (length (prefetched ?g))"
    by blast
  then show ?thesis
    unfolding body len_g by auto
qed

lemma inputs_of_simps [simp]:
  "inputs_of [] = []"
  "inputs_of (Complete i # evs) = inputs_of evs"
  "inputs_of (Input s # evs) = s # inputs_of evs"
  by (simp_all add: inputs_of_def)

lemma confirmations_simps [simp]:
  "confirmations [] = []"
  "confirmations (Complete i # evs) = confirmations evs"
  "confirmations (Input s # evs) = (if is_quit s then [] else s # confirmations evs)"
  by (simp_all add: confirmations_def)

lemma window_inv_complete:
  assumes "window_inv max_prefetch e rows p f"
  shows "window_inv max_prefetch e rows p (complete_task e i f) \<and>
         current_index (complete_task e i f) = current_index f"
  using assms complete_task_inv [of e rows p f i]
  by (simp add: window_inv_def)

lemma window_inv_step:
  assumes window: "1 \<le> max_prefetch"
    and inv: "window_inv max_prefetch e rows p f"
    and more: "current_index f < length rows"
  shows "\<exists>f'. consumer_body max_prefetch e f = (None, f') \<and>
           window_inv max_prefetch e rows p f' \<and> current_index f' = current_index f + 1"
proof -
  from inv have sched: "sched_inv e rows p f" and len: "length (prefetched f) \<le> max_prefetch"
    and here: "current_index f < next_index_to_prefetch f"
    using more by (simp_all add: window_inv_def)
  from consumer_body_inv [OF sched here, of max_prefetch] obtain f' where
    body: "consumer_body max_prefetch e f = (None, f')" and sched': "sched_inv e rows p f'"
    and cur: "current_index f' = current_index f + 1"
    and full: "next_index_to_prefetch f' = length rows \<or> max_prefetch \<le> length (prefetched f')"
    and len': "length (prefetched f') \<le> max max_prefetch (length (prefetched f) - 1)"
    by blast
  from len len' have bound: "length (prefetched f') \<le> max_prefetch"
    by simp
  have "current_index f' < next_index_to_prefetch f'" if "current_index f' < length rows"
    using full
  proof
    assume "next_index_to_prefetch f' = length rows"
    with that show ?thesis
      by simp
  next
    assume "max_prefetch \<le> length (prefetched f')"
    with window have "0 < next_index_to_prefetch f' - current_index f'"
      by (simp add: sched_inv_length [OF sched'])
    then show ?thesis
      by simp
  qed
  with sched' bound have "window_inv max_prefetch e rows p f'"
    by (simp add: window_inv_def)
  with body cur show ?thesis
    by blast
qed

text \<open>
  The loop of the consumer, from a frame that satisfies the invariant, on any list of
  events: it ends because the table is used up, because the user quits, or because the
  events have run out; the invariant holds of the frame it ends with, and the index has
  moved on by the number of lines read before the first \<^verbatim>\<open>q\<close>, as far as the table goes.
\<close>

lemma consumer_loop_inv:
  assumes window: "1 \<le> max_prefetch"
  shows "window_inv max_prefetch e rows p f \<Longrightarrow>
    \<exists>ex f' rest. consumer_loop max_prefetch e f evs = (ex, f', rest) \<and>
      window_inv max_prefetch e rows p f' \<and>
      current_index f' = min (length rows) (current_index f + length (confirmations evs)) \<and>
      (ex = Exhausted \<and> current_index f' = length rows \<or>
       ex = Aborted \<and> current_index f' < length rows \<or>
       ex = Raised EOFError \<and> current_index f' < length rows \<and> rest = [])"
proof (induction evs arbitrary: f)
  case Nil
  note d = sched_invD [of e rows p f]
  from Nil have sched: "sched_inv e rows p f"
    by (simp add: window_inv_def)
  from d(4) [OF sched] d(5) [OF sched] have le: "current_index f \<le> length rows"
    by simp
  show ?case
  proof (cases "current_index f < length rows")
    case True
    then have "consumer_loop max_prefetch e f [] = (Raised EOFError, f, [])"
      by (simp add: consumer_loop.simps [of _ _ f] d(2) [OF sched])
    with Nil True show ?thesis
      by simp
  next
    case False
    then have "consumer_loop max_prefetch e f [] = (Exhausted, f, [])"
      by (simp add: consumer_loop.simps [of _ _ f] d(2) [OF sched])
    with Nil False le show ?thesis
      by simp
  qed
next
  case (Cons ev evs)
  note inv = Cons.prems
  note d = sched_invD [of e rows p f]
  from inv have sched: "sched_inv e rows p f"
    by (simp add: window_inv_def)
  from d(4) [OF sched] d(5) [OF sched] have le: "current_index f \<le> length rows"
    by simp
  show ?case
  proof (cases "current_index f < length rows")
    case False
    then have "consumer_loop max_prefetch e f (ev # evs) = (Exhausted, f, ev # evs)"
      by (simp add: consumer_loop.simps [of _ _ f] d(2) [OF sched])
    with inv False le show ?thesis
      by simp
  next
    case True
    show ?thesis
    proof (cases ev)
      case (Complete i)
      from window_inv_complete [OF inv, of i]
      have inv': "window_inv max_prefetch e rows p (complete_task e i f)"
        and cur: "current_index (complete_task e i f) = current_index f"
        by simp_all
      have "consumer_loop max_prefetch e f (ev # evs)
              = consumer_loop max_prefetch e (complete_task e i f) evs"
        using True Complete by (simp add: consumer_loop.simps [of _ _ f] d(2) [OF sched])
      with Cons.IH [OF inv'] Complete cur show ?thesis
        by simp
    next
      case (Input user_input)
      show ?thesis
      proof (cases "is_quit user_input")
        case quit: True
        have "consumer_loop max_prefetch e f (ev # evs) = (Aborted, f, evs)"
          using True Input quit by (simp add: consumer_loop.simps [of _ _ f] d(2) [OF sched])
        with inv True Input quit show ?thesis
          by simp
      next
        case no_quit: False
        from window_inv_step [OF window inv True] obtain f1 where
          body: "consumer_body max_prefetch e f = (None, f1)"
          and inv1: "window_inv max_prefetch e rows p f1"
          and cur: "current_index f1 = current_index f + 1"
          by blast
        have "consumer_loop max_prefetch e f (ev # evs) = consumer_loop max_prefetch e f1 evs"
          using True Input no_quit body
          by (simp add: consumer_loop.simps [of _ _ f] d(2) [OF sched])
        with Cons.IH [OF inv1] Input no_quit cur show ?thesis
          by simp
      qed
    qed
  qed
qed


text \<open>The first fill, from the empty frame of a loaded object.\<close>

lemma initial_fill:
  assumes loaded: "csv_data p = Some rows" "total_layers p = length rows"
    and fill: "1 \<le> initial_prefetch" "initial_prefetch \<le> max_prefetch"
  shows "\<exists>f. prefetch_loop initial_prefetch
               \<lparr>prefetched = [], next_index_to_prefetch = 0, current_index = 0,
                delivered = [], self = p\<rparr> = (None, f) \<and>
             window_inv max_prefetch e rows p f \<and> current_index f = 0"
proof -
  let ?f0 = "\<lparr>prefetched = [], next_index_to_prefetch = 0, current_index = 0,
              delivered = [], self = p\<rparr>"
  have inv0: "sched_inv e rows p ?f0"
    using loaded by (intro sched_invI) (simp_all add: tally_def)
  from prefetch_loop_inv [OF inv0, of initial_prefetch] obtain f where
    run: "prefetch_loop initial_prefetch ?f0 = (None, f)" and sched: "sched_inv e rows p f"
    and cur: "current_index f = 0"
    and full: "next_index_to_prefetch f = length rows \<or> initial_prefetch \<le> length (prefetched f)"
    and len: "length (prefetched f) \<le> max initial_prefetch (length (prefetched ?f0))"
    by auto
  from len fill have bound: "length (prefetched f) \<le> max_prefetch"
    by simp
  have "current_index f < next_index_to_prefetch f" if "current_index f < length rows"
    using full
  proof
    assume "next_index_to_prefetch f = length rows"
    with that show ?thesis
      by simp
  next
    assume "initial_prefetch \<le> length (prefetched f)"
    with fill have "0 < next_index_to_prefetch f - current_index f"
      by (simp add: sched_inv_length [OF sched])
    then show ?thesis
      by simp
  qed
  with sched bound have "window_inv max_prefetch e rows p f"
    by (simp add: window_inv_def)
  with run cur show ?thesis
    by blast
qed

text \<open>The scheduler as a whole.\<close>

lemma prefetch_scheduler_inv:
  assumes loaded: "csv_data p = Some rows" "total_layers p = length rows"
    and fill: "1 \<le> initial_prefetch" "initial_prefetch \<le> max_prefetch"
  shows "\<exists>ex f rest.
      prefetch_scheduler max_prefetch initial_prefetch e p evs = (ex, f, rest) \<and>
      window_inv max_prefetch e rows p f \<and>
      current_index f = min (length rows) (length (confirmations evs)) \<and>
      (ex = Exhausted \<and> current_index f = length rows \<or>
       ex = Aborted \<and> current_index f < length rows \<or>
       ex = Raised EOFError \<and> current_index f < length rows \<and> rest = [])"
proof -
  from initial_fill [OF loaded fill, of e] obtain f0 where
    first: "prefetch_loop initial_prefetch
              \<lparr>prefetched = [], next_index_to_prefetch = 0, current_index = 0,
               delivered = [], self = p\<rparr> = (None, f0)"
    and inv0: "window_inv max_prefetch e rows p f0" and cur0: "current_index f0 = 0"
    by blast
  from fill have window: "1 \<le> max_prefetch"
    by simp
  from consumer_loop_inv [OF window inv0, of evs] cur0 first show ?thesis
    by (simp add: prefetch_scheduler_def)
qed


lemmas run_simps =
  supervised_mode_async_def prefetch_scheduler_def prefetch_loop.simps consumer_loop.simps
  consumer_body_def complete_task_def add_effects_def iloc_def fold_result_def
  fetch_layer_supervised_def Let_def

text \<open>
  Claim C4: for every window and first fill with 1 \<open>\<le>\<close> first fill \<open>\<le>\<close> window, every loaded
  table (of any number of rows, none included) and every list of events, the frame the
  scheduler has reached when the events are used up or the loop has ended satisfies:
  \<open>current_index \<le> next_index_to_prefetch \<le> total_layers\<close>; the dictionary holds at most
  \<open>max_prefetch\<close> tasks, under keys that are all different and all lie from
  \<open>current_index\<close> up to, not including, \<open>next_index_to_prefetch\<close>; and if
  \<open>current_index\<close> is still inside the table, it is a key of the dictionary. As the list of
  events is arbitrary, this is every frame in which the loop waits for a line or stops.
\<close>

theorem window_invariant:
  assumes "1 \<le> initial_prefetch" and "initial_prefetch \<le> max_prefetch"
    and "csv_data p = Some rows" and "total_layers p = length rows"
  shows "\<exists>ex f rest.
      prefetch_scheduler max_prefetch initial_prefetch e p evs = (ex, f, rest) \<and>
      current_index f \<le> next_index_to_prefetch f \<and>
      next_index_to_prefetch f \<le> total_layers p \<and>
      length (prefetched f) \<le> max_prefetch \<and>
      distinct (map fst (prefetched f)) \<and>
      (\<forall>k \<in> set (map fst (prefetched f)). current_index f \<le> k \<and> k < next_index_to_prefetch f) \<and>
      (current_index f < total_layers p \<longrightarrow> current_index f \<in> set (map fst (prefetched f)))"
proof -
  from prefetch_scheduler_inv [OF assms(3,4,1,2), of e evs] obtain ex f rest where
    run: "prefetch_scheduler max_prefetch initial_prefetch e p evs = (ex, f, rest)"
    and inv: "window_inv max_prefetch e rows p f"
    by blast
  from inv have sched: "sched_inv e rows p f" and len: "length (prefetched f) \<le> max_prefetch"
    and here: "current_index f < length rows \<longrightarrow> current_index f < next_index_to_prefetch f"
    by (simp_all add: window_inv_def)
  note d = sched_invD [OF sched]
  have keys: "map fst (prefetched f) = [current_index f..<next_index_to_prefetch f]"
    by (rule d(6))
  have "distinct (map fst (prefetched f))"
    by (simp only: keys distinct_upt)
  moreover have "\<forall>k \<in> set (map fst (prefetched f)).
      current_index f \<le> k \<and> k < next_index_to_prefetch f"
    by (simp only: keys) simp
  moreover have "current_index f < total_layers p \<longrightarrow>
      current_index f \<in> set (map fst (prefetched f))"
    using here by (simp only: keys assms(4)) simp
  ultimately show ?thesis
    using run d(4) d(5) len assms(4) by auto
qed

theorem window_invariant_witness:
  "(1::nat) \<le> 6 \<and> (6::nat) \<le> 10 \<and>
   csv_data (sample_printer ''supervised'' sample_rows) = Some sample_rows \<and>
   total_layers (sample_printer ''supervised'' sample_rows) = length sample_rows \<and>
   current_index (fst (snd (supervised_mode_async sample_env
      (sample_printer ''supervised'' sample_rows) [Complete 1, Input (ustr '''')]))) = 1 \<and>
   map fst (prefetched (fst (snd (supervised_mode_async sample_env
      (sample_printer ''supervised'' sample_rows) [Complete 1, Input (ustr '''')])))) = [1, 2] \<and>
   total_layers (sample_printer ''supervised'' sample_rows) = 3 \<and>
   length (prefetched (fst (snd (supervised_mode_async sample_env
      (sample_printer ''supervised'' sample_rows) [Complete 1, Input (ustr '''')])))) \<le> 10 \<and>
   next_index_to_prefetch (fst (snd (supervised_mode_async sample_env
      (sample_printer ''supervised'' sample_rows) [Complete 1, Input (ustr '''')]))) \<le> 3"
proof -
  have loaded: "csv_data (sample_printer ''supervised'' sample_rows) = Some sample_rows"
    "total_layers (sample_printer ''supervised'' sample_rows) = length sample_rows"
    by (simp_all add: sample_printer_def)
  have three: "total_layers (sample_printer ''supervised'' sample_rows) = 3"
    by (simp add: sample_printer_def sample_rows_def)
  have cur: "current_index (fst (snd (supervised_mode_async sample_env
      (sample_printer ''supervised'' sample_rows) [Complete 1, Input (ustr '''')]))) = 1"
    by (simp add: run_simps sample_simps path_simps text_simps)
  have keys: "map fst (prefetched (fst (snd (supervised_mode_async sample_env
      (sample_printer ''supervised'' sample_rows) [Complete 1, Input (ustr '''')])))) = [1, 2]"
    by (simp add: run_simps sample_simps path_simps text_simps)
  have fill: "(1::nat) \<le> 6" "(6::nat) \<le> 10"
    by simp_all
  from window_invariant [OF fill loaded, of sample_env "[Complete 1, Input (ustr '''')]"]
  have "length (prefetched (fst (snd (supervised_mode_async sample_env
      (sample_printer ''supervised'' sample_rows) [Complete 1, Input (ustr '''')])))) \<le> 10 \<and>
    next_index_to_prefetch (fst (snd (supervised_mode_async sample_env
      (sample_printer ''supervised'' sample_rows) [Complete 1, Input (ustr '''')]))) \<le> 3"
    by (auto simp: supervised_mode_async_def three)
  with loaded three cur keys show ?thesis
    by simp
qed

text \<open>
  Claim C1: in the supervised mode with prefetching, on a loaded table and any list of
  events, the results the loop unpacks are those of the rows 0, 1, ... in this order, one
  for each line the user has confirmed with (the lines before the first \<^verbatim>\<open>q\<close>), as far
  as the table goes: each of these rows once, and no other. The result of a row is the
  tuple its layer processor returns, or the tuple the loop makes of its exception. The
  tasks started are those of the rows before \<open>next_index_to_prefetch\<close>, each once. The
  order in which the tasks finish has no part in this: two lists of events with the same
  lines give the same results.
\<close>

theorem outcomes_delivered_in_row_order:
  assumes "csv_data p = Some rows" and "total_layers p = length rows"
  shows "\<exists>ex f rest.
      supervised_mode_async e p evs = (ex, f, rest) \<and>
      current_index f = min (length rows) (length (confirmations evs)) \<and>
      delivered f
        = map (\<lambda>i. (i, awaited_result e (output_folder p) (rows ! i))) [0..<current_index f] \<and>
      spawned (effects (self f)) = spawned (effects p) @ [0..<next_index_to_prefetch f] \<and>
      (\<forall>evs'. inputs_of evs' = inputs_of evs \<longrightarrow>
         delivered (fst (snd (supervised_mode_async e p evs'))) = delivered f)"
proof -
  have fill: "(1::nat) \<le> 6" "(6::nat) \<le> 10"
    by simp_all
  have shape: "\<exists>ex f rest.
      supervised_mode_async e p evs = (ex, f, rest) \<and>
      current_index f = min (length rows) (length (confirmations evs)) \<and>
      delivered f
        = map (\<lambda>i. (i, awaited_result e (output_folder p) (rows ! i))) [0..<current_index f] \<and>
      spawned (effects (self f)) = spawned (effects p) @ [0..<next_index_to_prefetch f]"
    for evs
  proof -
    from prefetch_scheduler_inv [OF assms fill, of e evs] obtain ex f rest where
      run: "supervised_mode_async e p evs = (ex, f, rest)"
      and inv: "window_inv 10 e rows p f"
      and cur: "current_index f = min (length rows) (length (confirmations evs))"
      unfolding supervised_mode_async_def by blast
    from inv have sched: "sched_inv e rows p f"
      by (simp add: window_inv_def)
    from run cur sched_invD(8) [OF sched] sched_invD(10) [OF sched] show ?thesis
      by blast
  qed
  from shape [of evs] obtain ex f rest where
    run: "supervised_mode_async e p evs = (ex, f, rest)"
    and cur: "current_index f = min (length rows) (length (confirmations evs))"
    and del: "delivered f
        = map (\<lambda>i. (i, awaited_result e (output_folder p) (rows ! i))) [0..<current_index f]"
    and spw: "spawned (effects (self f)) = spawned (effects p) @ [0..<next_index_to_prefetch f]"
    by blast
  have "delivered (fst (snd (supervised_mode_async e p evs'))) = delivered f"
    if same: "inputs_of evs' = inputs_of evs" for evs'
  proof -
    from shape [of evs'] obtain ex' f' rest' where
      run': "supervised_mode_async e p evs' = (ex', f', rest')"
      and cur': "current_index f' = min (length rows) (length (confirmations evs'))"
      and del': "delivered f'
        = map (\<lambda>i. (i, awaited_result e (output_folder p) (rows ! i))) [0..<current_index f']"
      by blast
    from same have "confirmations evs' = confirmations evs"
      by (simp add: confirmations_def)
    with cur cur' have "current_index f' = current_index f"
      by simp
    with del del' run' show ?thesis
      by simp
  qed
  with run cur del spw show ?thesis
    by blast
qed

theorem outcomes_delivered_in_row_order_witness:
  "csv_data (sample_printer ''supervised'' sample_rows) = Some sample_rows \<and>
   total_layers (sample_printer ''supervised'' sample_rows) = length sample_rows \<and>
   inputs_of [Input (ustr ''''), Input (ustr ''''), Complete 0, Input (ustr ''''), Input (ustr ''q'')]
     = inputs_of [Complete 2, Input (ustr ''''), Complete 1, Input (ustr ''''), Input (ustr ''''),
                  Input (ustr ''q'')] \<and>
   delivered (fst (snd (supervised_mode_async sample_env
      (sample_printer ''supervised'' sample_rows)
      [Complete 2, Input (ustr ''''), Complete 1, Input (ustr ''''), Input (ustr ''''),
       Input (ustr ''q'')])))
     = [(0, Num 1, True, None), (1, Num 2, True, None),
        (2, Num 3, False, Some ''Inherent CSV error: Nozzle Jam'')] \<and>
   delivered (fst (snd (supervised_mode_async sample_env
      (sample_printer ''supervised'' sample_rows)
      [Input (ustr ''''), Input (ustr ''''), Complete 0, Input (ustr ''''), Input (ustr ''q'')])))
     = [(0, Num 1, True, None), (1, Num 2, True, None),
        (2, Num 3, False, Some ''Inherent CSV error: Nozzle Jam'')]"
proof -
  have loaded: "csv_data (sample_printer ''supervised'' sample_rows) = Some sample_rows"
    "total_layers (sample_printer ''supervised'' sample_rows) = length sample_rows"
    by (simp_all add: sample_printer_def)
  have same: "inputs_of [Input (ustr ''''), Input (ustr ''''), Complete 0, Input (ustr ''''),
                         Input (ustr ''q'')]
     = inputs_of [Complete 2, Input (ustr ''''), Complete 1, Input (ustr ''''), Input (ustr ''''),
                  Input (ustr ''q'')]"
    by simp
  have lines: "length (confirmations [Complete 2, Input (ustr ''''), Complete 1, Input (ustr ''''),
                  Input (ustr ''''), Input (ustr ''q'')]) = 3"
    by (simp add: text_simps)
  have results: "map (\<lambda>i. (i, awaited_result sample_env ''out'' (sample_rows ! i))) [0..<3]
     = [(0, Num 1, True, None), (1, Num 2, True, None),
        (2, Num 3, False, Some ''Inherent CSV error: Nozzle Jam'')]"
    by (simp add: upt_rec awaited_result_def fetch_layer_supervised_def Let_def
          sample_simps path_simps)
  have folder: "output_folder (sample_printer ''supervised'' sample_rows) = ''out''"
    "length sample_rows = 3"
    by (simp_all add: sample_printer_def sample_rows_def)
  from outcomes_delivered_in_row_order [OF loaded, of sample_env
      "[Complete 2, Input (ustr ''''), Complete 1, Input (ustr ''''), Input (ustr ''''),
        Input (ustr ''q'')]"]
  obtain ex f rest where
    run: "supervised_mode_async sample_env (sample_printer ''supervised'' sample_rows)
      [Complete 2, Input (ustr ''''), Complete 1, Input (ustr ''''), Input (ustr ''''),
       Input (ustr ''q'')] = (ex, f, rest)"
    and cur: "current_index f = min (length sample_rows) 3"
    and del: "delivered f = map (\<lambda>i. (i, awaited_result sample_env ''out'' (sample_rows ! i)))
                             [0..<current_index f]"
    and any: "\<forall>evs'. inputs_of evs' = inputs_of [Complete 2, Input (ustr ''''), Complete 1,
                  Input (ustr ''''), Input (ustr ''''), Input (ustr ''q'')] \<longrightarrow>
         delivered (fst (snd (supervised_mode_async sample_env
            (sample_printer ''supervised'' sample_rows) evs'))) = delivered f"
    unfolding lines folder(1) by blast
  from cur del have first: "delivered f = [(0, Num 1, True, None), (1, Num 2, True, None),
        (2, Num 3, False, Some ''Inherent CSV error: Nozzle Jam'')]"
    by (simp only: folder(2) min.idem results)
  from any same have second: "delivered (fst (snd (supervised_mode_async sample_env
      (sample_printer ''supervised'' sample_rows)
      [Input (ustr ''''), Input (ustr ''''), Complete 0, Input (ustr ''''), Input (ustr ''q'')])))
     = delivered f"
    by blast
  from loaded same run first second show ?thesis
    by simp
qed

lemma generate_summary_counters [simp]:
  "successful_layers (generate_summary e q) = successful_layers q"
  "failed_layers (generate_summary e q) = failed_layers q"
  "error_log (generate_summary e q) = error_log q"
  "total_layers (generate_summary e q) = total_layers q"
  by (simp_all add: generate_summary_def Let_def)



subsection \<open>How a run can end\<close>

text \<open>
  No mode ends in \<^verbatim>\<open>sys.exit\<close>: what leaves a layer processor is an error of the file
  system, what leaves a loop is that, the end of the input, or an index outside the table.
\<close>

lemma normal_print_layer_raises_Exception:
  "fst (normal_print_layer e p layer) = Some x \<Longrightarrow> is_Exception x"
  by (auto simp: normal_print_layer_def Let_def split: option.splits sum.splits if_splits)

lemma multi_print_layer_raises_Exception:
  "fst (multi_print_layer e p layer) = Some x \<Longrightarrow> is_Exception x"
  by (auto simp: multi_print_layer_def Let_def split: option.splits sum.splits if_splits)

lemma supervised_rows_raises_Exception:
  "(\<And>q layer y. fst (pl e q layer) = Some y \<Longrightarrow> is_Exception y) \<Longrightarrow>
   fst (supervised_rows pl e rows p ins) = Raised x \<Longrightarrow> is_Exception x"
proof (induction pl e rows p ins rule: supervised_rows.induct)
  case (1 pl e p ins)
  then show ?case by simp
next
  case (2 pl e layer rest p)
  then show ?case by simp
next
  case (3 pl e layer rest p user_input ins)
  note pl = "3.prems"(1)
  show ?case
  proof (cases "pl e p layer")
    case (Pair r p')
    show ?thesis
    proof (cases r)
      case None
      with Pair "3.IH" "3.prems" show ?thesis
        by (auto split: if_splits list.splits)
    next
      case (Some y)
      with Pair have "fst (pl e p layer) = Some y"
        by simp
      then have "is_Exception y"
        by (rule pl)
      with Pair Some "3.prems"(2) show ?thesis
        by (auto split: if_splits list.splits)
    qed
  qed
qed

lemma automatic_rows_raises_Exception:
  "fst (automatic_rows e rows p) = Raised x \<Longrightarrow> is_Exception x"
proof (induction e rows p rule: automatic_rows.induct)
  case (1 e p)
  then show ?case by simp
next
  case (2 e layer rest p)
  show ?case
  proof (cases "has_error layer")
    case True
    with 2 show ?thesis by simp
  next
    case False
    show ?thesis
    proof (cases "normal_print_layer e p layer")
      case (Pair r p')
      show ?thesis
      proof (cases r)
        case None
        with Pair False 2 show ?thesis by simp
      next
        case (Some y)
        with Pair have "is_Exception y"
          using normal_print_layer_raises_Exception [of e p layer y] by simp
        with Pair Some False "2.prems" show ?thesis by simp
      qed
    qed
  qed
qed

lemma completion_order_bound:
  "i \<in> set (completion_order sched n) \<Longrightarrow> i < n"
  by (auto simp: completion_order_def Let_def)

lemma gather_raises_Exception:
  assumes proc: "\<And>r y. fst (proc r) = Inl y \<Longrightarrow> is_Exception y"
    and raised: "fst (gather proc sched rows) = Inl x"
  shows "is_Exception x"
proof (cases "List.find (\<lambda>i. isl (fst (map proc rows ! i)))
                (completion_order sched (length rows))")
  case None
  with raised show ?thesis
    by (simp add: gather_def Let_def)
next
  case (Some i)
  then have "i \<in> set (completion_order sched (length rows))"
    and left: "isl (fst (map proc rows ! i))"
    by (auto simp: find_Some_iff)
  then have "i < length rows"
    by (simp add: completion_order_bound)
  with left have "isl (fst (proc (rows ! i)))"
    by simp
  then have "fst (proc (rows ! i)) = Inl (projl (fst (proc (rows ! i))))"
    by simp
  then have "is_Exception (projl (fst (proc (rows ! i))))"
    by (rule proc)
  moreover from raised Some \<open>i < length rows\<close> have "x = projl (fst (proc (rows ! i)))"
    by (simp add: gather_def Let_def)
  ultimately show ?thesis
    by simp
qed

lemma automatic_mode_async_raises_Exception:
  assumes proc: "\<And>folder r y. fst (proc e folder r) = Inl y \<Longrightarrow> is_Exception y"
    and raised: "fst (automatic_mode_async proc e p sched) = Raised x"
  shows "is_Exception x"
proof (cases "csv_data p")
  case None
  with raised show ?thesis
    by (auto simp: automatic_mode_async_def)
next
  case (Some rows)
  show ?thesis
  proof (cases "gather (proc e (output_folder p)) sched rows")
    case (Pair r effs)
    show ?thesis
    proof (cases r)
      case (Inl y)
      with Pair have "fst (gather (proc e (output_folder p)) sched rows) = Inl y"
        by simp
      then have "is_Exception y"
        using gather_raises_Exception [of "proc e (output_folder p)" sched rows y] proc
        by blast
      with raised Some Pair Inl show ?thesis
        by (simp add: automatic_mode_async_def)
    next
      case (Inr results)
      with raised Some Pair show ?thesis
        by (simp add: automatic_mode_async_def)
    qed
  qed
qed

lemma not_sys_exit: "is_Exception x \<Longrightarrow> x \<noteq> SystemExit n"
  by (cases x) simp_all

lemma mode_of_init: "FakePrinter_init e name folder m = Inr p \<Longrightarrow> mode p = py_lower m"
  by (auto simp: FakePrinter_init_def split: option.splits)

lemma sequential_modes_raise_Exception:
  "normal_supervised_mode e p ins = (Raised x, p', ins') \<Longrightarrow> is_Exception x"
  "multi_supervised_mode e p ins = (Raised x, p', ins') \<Longrightarrow> is_Exception x"
  "automatic_mode e p = (Raised x, p') \<Longrightarrow> is_Exception x"
proof -
  show "is_Exception x" if "normal_supervised_mode e p ins = (Raised x, p', ins')"
  proof (cases "csv_data p")
    case None
    with that show ?thesis
      by (auto simp: normal_supervised_mode_def supervised_mode_def)
  next
    case (Some rows)
    with that have "fst (supervised_rows normal_print_layer e rows p ins) = Raised x"
      by (simp add: normal_supervised_mode_def supervised_mode_def)
    then show ?thesis
      by (rule supervised_rows_raises_Exception [rotated])
         (rule normal_print_layer_raises_Exception)
  qed
  show "is_Exception x" if "multi_supervised_mode e p ins = (Raised x, p', ins')"
  proof (cases "csv_data p")
    case None
    with that show ?thesis
      by (auto simp: multi_supervised_mode_def supervised_mode_def)
  next
    case (Some rows)
    with that have "fst (supervised_rows multi_print_layer e rows p ins) = Raised x"
      by (simp add: multi_supervised_mode_def supervised_mode_def)
    then show ?thesis
      by (rule supervised_rows_raises_Exception [rotated])
         (rule multi_print_layer_raises_Exception)
  qed
  show "is_Exception x" if "automatic_mode e p = (Raised x, p')"
  proof (cases "csv_data p")
    case None
    with that show ?thesis
      by (auto simp: automatic_mode_def)
  next
    case (Some rows)
    with that have "fst (automatic_rows e rows p) = Raised x"
      by (simp add: automatic_mode_def)
    then show ?thesis
      by (rule automatic_rows_raises_Exception)
  qed
qed

lemma concurrent_modes_raise_Exception:
  "multi_automatic_mode_async e p sched = (Raised x, p') \<Longrightarrow> is_Exception x"
  "smart_automatic_mode_async e p sched = (Raised x, p') \<Longrightarrow> is_Exception x"
proof -
  have "is_Exception x" if "fst (automatic_mode_async fetch_layer_supervised e p sched) = Raised x"
    using that
    by (rule automatic_mode_async_raises_Exception [rotated]) (rule fetch_raises_Exception)
  then show "multi_automatic_mode_async e p sched = (Raised x, p') \<Longrightarrow> is_Exception x"
    and "smart_automatic_mode_async e p sched = (Raised x, p') \<Longrightarrow> is_Exception x"
    by (simp_all add: multi_automatic_mode_async_def smart_automatic_mode_async_def
          print_layer_async_eq)
qed

lemma supervised_mode_async_raises_Exception:
  assumes "csv_data p = Some rows" and "total_layers p = length rows"
    and "supervised_mode_async e p evs = (Raised x, f, rest)"
  shows "is_Exception x"
proof -
  have fill: "(1::nat) \<le> 6" "(6::nat) \<le> 10"
    by simp_all
  from prefetch_scheduler_inv [OF assms(1,2) fill, of e evs] assms(3)
  have "x = EOFError"
    by (auto simp: supervised_mode_async_def)
  then show ?thesis
    by simp
qed

lemma literal_modes_differ: "ustr ''automatic'' \<noteq> ustr ''supervised''"
  by (simp add: ustr_def)

text \<open>
  Claim C10: the constructor stores the lowercase form of the mode it is given, and
  \<^verbatim>\<open>run\<close> compares only that. So for a mode that lowercases to \<^verbatim>\<open>supervised\<close>, whatever
  its case, \<^verbatim>\<open>run\<close> on a readable table is the supervised mode of the driver followed by
  the summary (or the exception that left the mode), and likewise for \<^verbatim>\<open>automatic\<close>; in
  neither case does the run end in \<^verbatim>\<open>sys.exit\<close>. This holds in all three drivers.
\<close>

theorem mode_selection_is_case_insensitive:
  assumes "FakePrinter_init e name folder m = Inr p" and "read_csv e csv_file = Inr rows"
  shows
   "mode p = py_lower m \<and>
    (py_lower m = ustr ''supervised'' \<longrightarrow>
       normal_run e p csv_file ins =
         (case normal_supervised_mode e (p\<lparr>csv_data := Some rows, total_layers := length rows\<rparr>)
                 ins of
            (Raised x, p2, ins') \<Rightarrow> (Some x, p2, ins')
          | (_, p2, ins') \<Rightarrow> (None, generate_summary e p2, ins')) \<and>
       multi_run e p csv_file ins sched =
         (case multi_supervised_mode e (p\<lparr>csv_data := Some rows, total_layers := length rows\<rparr>)
                 ins of
            (Raised x, p2, ins') \<Rightarrow> (Some x, p2, ins')
          | (_, p2, ins') \<Rightarrow> (None, generate_summary e p2, ins')) \<and>
       smart_run e p csv_file evs =
         (case supervised_mode_async e (p\<lparr>csv_data := Some rows, total_layers := length rows\<rparr>)
                 evs of
            (Raised x, f, evs') \<Rightarrow> (Some x, self f, evs')
          | (_, f, evs') \<Rightarrow> (None, generate_summary e (self f), evs'))) \<and>
    (py_lower m = ustr ''automatic'' \<longrightarrow>
       normal_run e p csv_file ins =
         (case automatic_mode e (p\<lparr>csv_data := Some rows, total_layers := length rows\<rparr>) of
            (Raised x, p2) \<Rightarrow> (Some x, p2, ins)
          | (_, p2) \<Rightarrow> (None, generate_summary e p2, ins)) \<and>
       multi_run e p csv_file ins sched =
         (case multi_automatic_mode_async e
                 (p\<lparr>csv_data := Some rows, total_layers := length rows\<rparr>) sched of
            (Raised x, p2) \<Rightarrow> (Some x, p2, ins)
          | (_, p2) \<Rightarrow> (None, generate_summary e p2, ins)) \<and>
       smart_run e p csv_file evs =
         (case smart_automatic_mode_async e
                 (p\<lparr>csv_data := Some rows, total_layers := length rows\<rparr>) (completions evs) of
            (Raised x, p2) \<Rightarrow> (Some x, p2, evs)
          | (_, p2) \<Rightarrow> (None, generate_summary e p2, evs))) \<and>
    (py_lower m = ustr ''supervised'' \<or> py_lower m = ustr ''automatic'' \<longrightarrow>
       (\<forall>n. fst (normal_run e p csv_file ins) \<noteq> Some (SystemExit n)) \<and>
       (\<forall>n. fst (multi_run e p csv_file ins sched) \<noteq> Some (SystemExit n)) \<and>
       (\<forall>n. fst (smart_run e p csv_file evs) \<noteq> Some (SystemExit n)))"
proof -
  let ?p1 = "p\<lparr>csv_data := Some rows, total_layers := length rows\<rparr>"
  have lower: "mode p = py_lower m"
    by (rule mode_of_init [OF assms(1)])
  have load: "load_csv_data e p csv_file = (None, ?p1)"
    by (simp add: load_csv_data_def assms(2))
  have loaded: "csv_data ?p1 = Some rows" "total_layers ?p1 = length rows"
    by simp_all
  have supervised: "normal_run e p csv_file ins =
         (case normal_supervised_mode e ?p1 ins of
            (Raised x, p2, ins') \<Rightarrow> (Some x, p2, ins')
          | (_, p2, ins') \<Rightarrow> (None, generate_summary e p2, ins')) \<and>
       multi_run e p csv_file ins sched =
         (case multi_supervised_mode e ?p1 ins of
            (Raised x, p2, ins') \<Rightarrow> (Some x, p2, ins')
          | (_, p2, ins') \<Rightarrow> (None, generate_summary e p2, ins')) \<and>
       smart_run e p csv_file evs =
         (case supervised_mode_async e ?p1 evs of
            (Raised x, f, evs') \<Rightarrow> (Some x, self f, evs')
          | (_, f, evs') \<Rightarrow> (None, generate_summary e (self f), evs'))"
    if "py_lower m = ustr ''supervised''"
    using that lower by (simp add: normal_run_def multi_run_def smart_run_def load)
  have automatic: "normal_run e p csv_file ins =
         (case automatic_mode e ?p1 of
            (Raised x, p2) \<Rightarrow> (Some x, p2, ins)
          | (_, p2) \<Rightarrow> (None, generate_summary e p2, ins)) \<and>
       multi_run e p csv_file ins sched =
         (case multi_automatic_mode_async e ?p1 sched of
            (Raised x, p2) \<Rightarrow> (Some x, p2, ins)
          | (_, p2) \<Rightarrow> (None, generate_summary e p2, ins)) \<and>
       smart_run e p csv_file evs =
         (case smart_automatic_mode_async e ?p1 (completions evs) of
            (Raised x, p2) \<Rightarrow> (Some x, p2, evs)
          | (_, p2) \<Rightarrow> (None, generate_summary e p2, evs))"
    if "py_lower m = ustr ''automatic''"
    using that lower literal_modes_differ
    by (simp add: normal_run_def multi_run_def smart_run_def load)
  have no_exit: "(\<forall>n. fst (normal_run e p csv_file ins) \<noteq> Some (SystemExit n)) \<and>
       (\<forall>n. fst (multi_run e p csv_file ins sched) \<noteq> Some (SystemExit n)) \<and>
       (\<forall>n. fst (smart_run e p csv_file evs) \<noteq> Some (SystemExit n))"
    if valid: "py_lower m = ustr ''supervised'' \<or> py_lower m = ustr ''automatic''"
  proof -
    have normal: "is_Exception y" if "fst (normal_run e p csv_file ins) = Some y" for y
      using valid
    proof
      assume "py_lower m = ustr ''supervised''"
      from supervised [OF this] that show ?thesis
        by (auto split: prod.splits loop_exit.splits
              dest: sequential_modes_raise_Exception(1))
    next
      assume "py_lower m = ustr ''automatic''"
      from automatic [OF this] that show ?thesis
        by (auto split: prod.splits loop_exit.splits
              dest: sequential_modes_raise_Exception(3))
    qed
    have multi: "is_Exception y" if "fst (multi_run e p csv_file ins sched) = Some y" for y
      using valid
    proof
      assume "py_lower m = ustr ''supervised''"
      from supervised [OF this] that show ?thesis
        by (auto split: prod.splits loop_exit.splits
              dest: sequential_modes_raise_Exception(2))
    next
      assume "py_lower m = ustr ''automatic''"
      from automatic [OF this] that show ?thesis
        by (auto split: prod.splits loop_exit.splits
              dest: concurrent_modes_raise_Exception(1))
    qed
    have smart: "is_Exception y" if "fst (smart_run e p csv_file evs) = Some y" for y
      using valid
    proof
      assume "py_lower m = ustr ''supervised''"
      from supervised [OF this] that show ?thesis
        by (auto split: prod.splits loop_exit.splits
              dest: supervised_mode_async_raises_Exception [OF loaded])
    next
      assume "py_lower m = ustr ''automatic''"
      from automatic [OF this] that show ?thesis
        by (auto split: prod.splits loop_exit.splits
              dest: concurrent_modes_raise_Exception(2))
    qed
    from normal multi smart show ?thesis
      by (auto dest: not_sys_exit)
  qed
  from lower supervised automatic no_exit show ?thesis
    by blast
qed

theorem mode_selection_is_case_insensitive_witness:
  "FakePrinter_init sample_env ''job'' ''out'' (ustr ''Supervised'')
     = Inr ((sample_printer ''supervised'' [])\<lparr>csv_data := None\<rparr>) \<and>
   FakePrinter_init sample_env ''job'' ''out'' (ustr ''AUTOMATIC'')
     = Inr ((sample_printer ''automatic'' [])\<lparr>csv_data := None\<rparr>) \<and>
   read_csv sample_env ''jobs.csv'' = Inr sample_rows \<and>
   py_lower (ustr ''Supervised'') = ustr ''supervised'' \<and>
   py_lower (ustr ''AUTOMATIC'') = ustr ''automatic'' \<and>
   fst (smart_run sample_env ((sample_printer ''supervised'' [])\<lparr>csv_data := None\<rparr>)
          ''jobs.csv'' [Input (ustr ''q'')]) = None \<and>
   fst (normal_run sample_env ((sample_printer ''automatic'' [])\<lparr>csv_data := None\<rparr>)
          ''jobs.csv'' []) \<noteq> Some (SystemExit 1)"
proof -
  have init_s: "FakePrinter_init sample_env ''job'' ''out'' (ustr ''Supervised'')
     = Inr ((sample_printer ''supervised'' [])\<lparr>csv_data := None\<rparr>)"
    by (simp add: FakePrinter_init_def sample_env_def sample_printer_def text_simps)
  have init_a: "FakePrinter_init sample_env ''job'' ''out'' (ustr ''AUTOMATIC'')
     = Inr ((sample_printer ''automatic'' [])\<lparr>csv_data := None\<rparr>)"
    by (simp add: FakePrinter_init_def sample_env_def sample_printer_def text_simps)
  have csv: "read_csv sample_env ''jobs.csv'' = Inr sample_rows"
    by (simp add: sample_env_def)
  have low_s: "py_lower (ustr ''Supervised'') = ustr ''supervised''"
    by (simp add: text_simps)
  have low_a: "py_lower (ustr ''AUTOMATIC'') = ustr ''automatic''"
    by (simp add: text_simps)
  have loaded: "(sample_printer ''supervised'' [])
      \<lparr>csv_data := None, csv_data := Some sample_rows, total_layers := length sample_rows\<rparr>
      = sample_printer ''supervised'' sample_rows"
    by (simp add: sample_printer_def)
  have quit: "fst (supervised_mode_async sample_env (sample_printer ''supervised'' sample_rows)
                     [Input (ustr ''q'')]) = Aborted"
    by (simp add: run_simps sample_simps path_simps text_simps)
  from mode_selection_is_case_insensitive [OF init_s csv, of "[]" "[]" "[Input (ustr ''q'')]"] low_s
  have "smart_run sample_env ((sample_printer ''supervised'' [])\<lparr>csv_data := None\<rparr>)
          ''jobs.csv'' [Input (ustr ''q'')] =
         (case supervised_mode_async sample_env (sample_printer ''supervised'' sample_rows)
                 [Input (ustr ''q'')] of
            (Raised x, f, evs') \<Rightarrow> (Some x, self f, evs')
          | (_, f, evs') \<Rightarrow> (None, generate_summary sample_env (self f), evs'))"
    by (simp only: loaded)
  with quit have first: "fst (smart_run sample_env
      ((sample_printer ''supervised'' [])\<lparr>csv_data := None\<rparr>) ''jobs.csv'' [Input (ustr ''q'')])
      = None"
    by (auto split: prod.splits loop_exit.splits)
  from mode_selection_is_case_insensitive [OF init_a csv, of "[]" "[]" "[]"] low_a
  have second: "fst (normal_run sample_env
      ((sample_printer ''automatic'' [])\<lparr>csv_data := None\<rparr>) ''jobs.csv'' [])
      \<noteq> Some (SystemExit 1)"
    by blast
  from init_s init_a csv low_s low_a first second show ?thesis
    by (intro conjI)
qed

subsection \<open>The counters at the end of a run\<close>

text \<open>
  Claim C5 fails in the automatic mode of \<^verbatim>\<open>smart_driver.py\<close> (and of \<^verbatim>\<open>multi_driver.py\<close>,
  which runs the same steps) when the folder of one layer cannot be created. On the
  three sample rows, with a file in the way of the folder of layer 3, the task of that row
  raises, \<^verbatim>\<open>asyncio.gather\<close> passes the exception on, and the mode ends with both counters
  at 0 for a table of 3 rows; nobody was asked anything. \<^verbatim>\<open>run\<close> ends with the same
  exception, before the summary. The supervised mode of the same driver, in the same
  world, counts that row as failed and ends with 2 + 1 = 3.
\<close>

theorem automatic_mode_loses_count_when_a_task_raises:
  "total_layers (sample_printer ''automatic'' sample_rows) = 3 \<and>
   fst (smart_automatic_mode_async blocked_env (sample_printer ''automatic'' sample_rows) [])
     = Raised (OSError ''File exists'') \<and>
   successful_layers (snd (smart_automatic_mode_async blocked_env
      (sample_printer ''automatic'' sample_rows) [])) = 0 \<and>
   failed_layers (snd (smart_automatic_mode_async blocked_env
      (sample_printer ''automatic'' sample_rows) [])) = 0 \<and>
   multi_automatic_mode_async blocked_env (sample_printer ''automatic'' sample_rows) []
     = smart_automatic_mode_async blocked_env (sample_printer ''automatic'' sample_rows) [] \<and>
   FakePrinter_init blocked_env ''job'' ''out'' (ustr ''automatic'')
     = Inr ((sample_printer ''automatic'' [])\<lparr>csv_data := None\<rparr>) \<and>
   fst (smart_run blocked_env ((sample_printer ''automatic'' [])\<lparr>csv_data := None\<rparr>)
          ''jobs.csv'' []) = Some (OSError ''File exists'') \<and>
   fst (supervised_mode_async blocked_env (sample_printer ''supervised'' sample_rows)
          [Input (ustr ''''), Input (ustr ''''), Input (ustr '''')]) = Exhausted \<and>
   successful_layers (self (fst (snd (supervised_mode_async blocked_env
      (sample_printer ''supervised'' sample_rows)
      [Input (ustr ''''), Input (ustr ''''), Input (ustr '''')])))) = 2 \<and>
   failed_layers (self (fst (snd (supervised_mode_async blocked_env
      (sample_printer ''supervised'' sample_rows)
      [Input (ustr ''''), Input (ustr ''''), Input (ustr '''')])))) = 1 \<and>
   error_log (self (fst (snd (supervised_mode_async blocked_env
      (sample_printer ''supervised'' sample_rows)
      [Input (ustr ''''), Input (ustr ''''), Input (ustr '''')]))))
     = [''Layer 3: Error: File exists'']"
proof -
  have order: "completion_order [] 3 = [0, 1, 2]"
    by (simp add: completion_order_def upt_rec)
  have rows: "length sample_rows = 3"
    by (simp add: sample_rows_def)
  have outs:
    "fst (fetch_layer_supervised blocked_env ''out'' (sample_rows ! 0)) = Inr (Num 1, True, None)"
    "fst (fetch_layer_supervised blocked_env ''out'' (sample_rows ! 1)) = Inr (Num 2, True, None)"
    "fst (fetch_layer_supervised blocked_env ''out'' (sample_rows ! 2))
       = Inl (OSError ''File exists'')"
    by (simp_all add: fetch_layer_supervised_def Let_def sample_simps path_simps)
  have found: "List.find
      (\<lambda>i. isl (fst (map (fetch_layer_supervised blocked_env ''out'') sample_rows ! i))) [0, 1, 2]
        = Some 2"
    using outs by (simp add: rows)
  have gathered: "fst (gather (fetch_layer_supervised blocked_env ''out'') [] sample_rows)
      = Inl (OSError ''File exists'')"
    using outs by (simp add: gather_def Let_def rows order found)
  have automatic: "fst (smart_automatic_mode_async blocked_env
        (sample_printer ''automatic'' sample_rows) []) = Raised (OSError ''File exists'') \<and>
      successful_layers (snd (smart_automatic_mode_async blocked_env
        (sample_printer ''automatic'' sample_rows) [])) = 0 \<and>
      failed_layers (snd (smart_automatic_mode_async blocked_env
        (sample_printer ''automatic'' sample_rows) [])) = 0"
    using gathered
    by (auto simp: smart_automatic_mode_async_def automatic_mode_async_def sample_printer_def
          split: prod.splits sum.splits)
  have same: "multi_automatic_mode_async blocked_env (sample_printer ''automatic'' sample_rows) []
      = smart_automatic_mode_async blocked_env (sample_printer ''automatic'' sample_rows) []"
    by (simp add: multi_automatic_mode_async_def smart_automatic_mode_async_def
          print_layer_async_eq)
  have init: "FakePrinter_init blocked_env ''job'' ''out'' (ustr ''automatic'')
      = Inr ((sample_printer ''automatic'' [])\<lparr>csv_data := None\<rparr>)"
    by (simp add: FakePrinter_init_def sample_simps text_simps)
  have loaded: "(sample_printer ''automatic'' [])
      \<lparr>csv_data := None, csv_data := Some sample_rows, total_layers := length sample_rows\<rparr>
      = sample_printer ''automatic'' sample_rows"
    by (simp add: sample_printer_def)
  have csv: "read_csv blocked_env ''jobs.csv'' = Inr sample_rows"
    by (simp add: blocked_env_def sample_env_def)
  have run: "fst (smart_run blocked_env ((sample_printer ''automatic'' [])\<lparr>csv_data := None\<rparr>)
          ''jobs.csv'' []) = Some (OSError ''File exists'')"
    using automatic
    by (simp add: smart_run_def load_csv_data_def csv loaded completions_def)
       (auto simp: sample_printer_def ustr_def split: prod.splits loop_exit.splits)
  have supervised: "fst (supervised_mode_async blocked_env
        (sample_printer ''supervised'' sample_rows)
        [Input (ustr ''''), Input (ustr ''''), Input (ustr '''')]) = Exhausted \<and>
     successful_layers (self (fst (snd (supervised_mode_async blocked_env
        (sample_printer ''supervised'' sample_rows)
        [Input (ustr ''''), Input (ustr ''''), Input (ustr '''')])))) = 2 \<and>
     failed_layers (self (fst (snd (supervised_mode_async blocked_env
        (sample_printer ''supervised'' sample_rows)
        [Input (ustr ''''), Input (ustr ''''), Input (ustr '''')])))) = 1 \<and>
     error_log (self (fst (snd (supervised_mode_async blocked_env
        (sample_printer ''supervised'' sample_rows)
        [Input (ustr ''''), Input (ustr ''''), Input (ustr '''')]))))
       = [''Layer 3: Error: File exists'']"
    by (simp add: run_simps sample_simps path_simps text_simps)
  have total: "total_layers (sample_printer ''automatic'' sample_rows) = 3"
    by (simp add: sample_printer_def rows)
  from total automatic same init run supervised show ?thesis
    by (intro conjI) simp_all
qed

end
